theory Spec2Isabelle
  imports Main
begin

section \<open>JavaScript strings\<close>

text \<open>
  A JavaScript string is a sequence of UTF-16 code units.  A code unit is modelled by its
  number, so that the white-space class of ECMAScript can be written out in full; \<open>lit\<close>
  turns an ASCII literal into such a sequence.
\<close>

type_synonym code_unit = nat
type_synonym jsstring = "code_unit list"

definition lit :: "string \<Rightarrow> jsstring" where
  "lit s = map of_char s"

text \<open>
  \<open>is_space\<close> is the class removed by \<open>String.prototype.trim\<close> and matched by \<open>\s\<close>:
  WhiteSpace (TAB, VT, FF, SP, NBSP, ZWNBSP and the Unicode space separators) together with
  LineTerminator (LF, CR, LS, PS).  \<open>is_word\<close> is \<open>\w\<close> without the \<open>i\<close> and \<open>u\<close> flags:
  \<open>[A-Za-z0-9_]\<close>.
\<close>

definition is_space :: "code_unit \<Rightarrow> bool" where
  "is_space c =
     (c = 9 \<or> c = 10 \<or> c = 11 \<or> c = 12 \<or> c = 13 \<or> c = 32 \<or> c = 160 \<or> c = 5760
      \<or> (8192 \<le> c \<and> c \<le> 8202) \<or> c = 8232 \<or> c = 8233 \<or> c = 8239 \<or> c = 8287
      \<or> c = 12288 \<or> c = 65279)"

definition is_word :: "code_unit \<Rightarrow> bool" where
  "is_word c =
     ((65 \<le> c \<and> c \<le> 90) \<or> (97 \<le> c \<and> c \<le> 122) \<or> (48 \<le> c \<and> c \<le> 57) \<or> c = 95)"

definition trim :: "jsstring \<Rightarrow> jsstring" where
  "trim s = rev (dropWhile is_space (rev (dropWhile is_space s)))"

text \<open>\<open>s.includes(p)\<close>: \<open>p\<close> occurs in \<open>s\<close> as a contiguous substring.\<close>

fun includes_str :: "jsstring \<Rightarrow> jsstring \<Rightarrow> bool" where
  "includes_str [] p = (p = [])"
| "includes_str (c # s) p = (take (length p) (c # s) = p \<or> includes_str s p)"

text \<open>\<open>s.startsWith(p)\<close> and \<open>s.endsWith(p)\<close>.\<close>

definition startsWith :: "jsstring \<Rightarrow> jsstring \<Rightarrow> bool" where
  "startsWith s p = (take (length p) s = p)"

definition endsWith :: "jsstring \<Rightarrow> jsstring \<Rightarrow> bool" where
  "endsWith s p = (length p \<le> length s \<and> drop (length s - length p) s = p)"

text \<open>
  \<open>s.split(sep)[0]\<close> and \<open>s.split(sep)[1]\<close> for a one-unit separator: the piece before the
  first separator (the whole string when there is none), and the piece between the first
  and the second separator, which is \<open>undefined\<close> (\<open>None\<close>) when there is no separator.
\<close>

definition split_0 :: "code_unit \<Rightarrow> jsstring \<Rightarrow> jsstring" where
  "split_0 sep s = takeWhile (\<lambda>c. c \<noteq> sep) s"

definition split_1 :: "code_unit \<Rightarrow> jsstring \<Rightarrow> jsstring option" where
  "split_1 sep s =
     (case dropWhile (\<lambda>c. c \<noteq> sep) s of
        [] \<Rightarrow> None
      | _ # r \<Rightarrow> Some (takeWhile (\<lambda>c. c \<noteq> sep) r))"

text \<open>
  \<open>s.toLowerCase()\<close> on the ASCII letters.  The only use in the program compares the
  result with four ASCII constants, none of which holds a \<open>k\<close>; the one non-ASCII code
  unit that lower-cases to an ASCII letter is the Kelvin sign (to \<open>k\<close>), so the comparison
  comes out the same as with the full Unicode mapping.
\<close>

definition toLowerCase :: "jsstring \<Rightarrow> jsstring" where
  "toLowerCase s = map (\<lambda>c. if 65 \<le> c \<and> c \<le> 90 then c + 32 else c) s"

section \<open>The fence pattern of the service client\<close>

text \<open>
  Both \<open>convertTextToMarkdown\<close> and \<open>translateText\<close> clean the response text with
  \<^verbatim>\<open>/^```(\w*)?\s*\n?(.*?)\n?\s*```$/s\<close>.
  The matcher below follows the backtracking order of the pattern, piece by piece, and
  returns the second capture group of the first match found (\<open>match[2]\<close>), or \<open>None\<close> when
  the pattern does not match.  Without the \<open>m\<close> flag \<open>^\<close> and \<open>$\<close> are the ends of the whole
  string; with the \<open>s\<close> flag the dot matches every code unit.
\<close>

definition fence :: jsstring where
  "fence = [96, 96, 96]"

text \<open>The rest of the pattern after the second group: \<^verbatim>\<open>\n?\s*```$\<close>, greedy.\<close>

definition closing_ok :: "jsstring \<Rightarrow> bool" where
  "closing_ok r =
     ((case r of c # t \<Rightarrow> c = 10 \<and> dropWhile is_space t = fence | [] \<Rightarrow> False)
      \<or> dropWhile is_space r = fence)"

text \<open>
  The lazy group \<^verbatim>\<open>(.*?)\<close>: the shortest piece after which the rest of the pattern
  matches; \<open>acc\<close> holds the units taken so far, last first.
\<close>

fun lazy_body :: "jsstring \<Rightarrow> jsstring \<Rightarrow> jsstring option" where
  "lazy_body acc [] = (if closing_ok [] then Some (rev acc) else None)"
| "lazy_body acc (c # t) = (if closing_ok (c # t) then Some (rev acc) else lazy_body (c # acc) t)"

text \<open>\<^verbatim>\<open>\n?\<close> before the group: a line feed is taken first, and given back on failure.\<close>

definition opt_newline :: "jsstring \<Rightarrow> jsstring option" where
  "opt_newline r =
     (case r of
        c # t \<Rightarrow>
          (if c = 10 then (case lazy_body [] t of Some b \<Rightarrow> Some b | None \<Rightarrow> lazy_body [] r)
           else lazy_body [] r)
      | [] \<Rightarrow> lazy_body [] r)"

text \<open>\<^verbatim>\<open>\s*\<close>, greedy: the longest run first, one unit given back at a time.\<close>

fun spaces_then :: "jsstring \<Rightarrow> jsstring option" where
  "spaces_then [] = opt_newline []"
| "spaces_then (c # t) =
     (if is_space c
      then (case spaces_then t of Some b \<Rightarrow> Some b | None \<Rightarrow> opt_newline (c # t))
      else opt_newline (c # t))"

text \<open>
  \<^verbatim>\<open>(\w*)?\<close>, greedy: the longest tag first, one unit given back at a time, the
  empty tag (or the group left out) last.
\<close>

fun tag_then :: "jsstring \<Rightarrow> jsstring option" where
  "tag_then [] = spaces_then []"
| "tag_then (c # t) =
     (if is_word c
      then (case tag_then t of Some b \<Rightarrow> Some b | None \<Rightarrow> spaces_then (c # t))
      else spaces_then (c # t))"

definition fenceRegex_match :: "jsstring \<Rightarrow> jsstring option" where
  "fenceRegex_match s = (if startsWith s fence then tag_then (drop 3 s) else None)"

text \<open>
  The value returned for a response text:
  \<^verbatim>\<open>let cleanedText = text.trim(); const match = cleanedText.match(fenceRegex);
  if (match && match[2]) { cleanedText = match[2].trim(); } return cleanedText;\<close>
  An empty second group is falsy, so the text is then kept as it is.
\<close>

definition cleanedText :: "jsstring \<Rightarrow> jsstring" where
  "cleanedText text =
     (let cleaned = trim text in
      case fenceRegex_match cleaned of
        Some body \<Rightarrow> (if body \<noteq> [] then trim body else cleaned)
      | None \<Rightarrow> cleaned)"

section \<open>The service client\<close>

text \<open>
  A thrown value is an \<open>Error\<close> with its message, or something else (\<open>instanceof Error\<close>
  is false), which may or may not carry a \<open>message\<close> property.  \<open>x || d\<close> on a message
  takes \<open>d\<close> when the message is missing or empty.
\<close>

datatype thrown = Error jsstring | NonError "jsstring option"

fun message :: "thrown \<Rightarrow> jsstring option" where
  "message (Error m) = Some m"
| "message (NonError m) = m"

definition or_default :: "jsstring option \<Rightarrow> jsstring \<Rightarrow> jsstring" where
  "or_default x d = (case x of Some m \<Rightarrow> (if m \<noteq> [] then m else d) | None \<Rightarrow> d)"

text \<open>
  A request to \<open>ai.models.generateContent\<close>, by the parts that vary: the MIME type and the
  inline data of an OCR request (the data is \<open>undefined\<close> when a data URL had no comma),
  the raw text of a Markdown request, and the text, target language code and first line
  of the system instruction of a translation request.  The fixed prompt text, the model
  name and the decoding parameters are left out.
\<close>

datatype request =
    OcrRequest jsstring "jsstring option"
  | MarkdownRequest jsstring
  | TranslateRequest jsstring jsstring jsstring

text \<open>
  The world of the client: \<open>process.env.API_KEY\<close> (\<open>None\<close> when it is not a string) and the
  outcome of each call of \<open>generateContent\<close>, which may depend on how many calls were made
  before: the call throws, or it returns a response whose \<open>text\<close> is a string or
  \<open>undefined\<close>.  The requests issued so far are threaded through every operation.
\<close>

record service =
  API_KEY :: "jsstring option"
  generateContent :: "nat \<Rightarrow> request \<Rightarrow> thrown + jsstring option"

type_synonym 'a call = "request list \<Rightarrow> 'a \<times> request list"

definition call_generateContent :: "service \<Rightarrow> request \<Rightarrow> (thrown + jsstring option) call" where
  "call_generateContent env req log = (generateContent env (length log) req, log @ [req])"

definition api_key_message :: jsstring where
  "api_key_message = lit ''API Key for Gemini is not configured as expected in environment variables. Please ensure API_KEY is a non-empty string.''"

definition ensureApiKeyIsConfigured :: "service \<Rightarrow> thrown + unit" where
  "ensureApiKeyIsConfigured env =
     (case API_KEY env of
        None \<Rightarrow> Inl (Error api_key_message)
      | Some apiKey \<Rightarrow> (if length (trim apiKey) = 0 then Inl (Error api_key_message) else Inr ()))"

text \<open>
  The \<open>catch\<close> block shared by the three operations; \<open>prefix\<close> and \<open>unknown\<close> are the two
  texts that differ between them.
\<close>

definition invalid_key_message :: jsstring where
  "invalid_key_message = lit ''Invalid API Key for Gemini. Please check your Gemini API key configuration.''"

definition rethrow :: "jsstring \<Rightarrow> jsstring \<Rightarrow> thrown \<Rightarrow> thrown" where
  "rethrow prefix unknown e =
     (case e of
        Error m \<Rightarrow>
          (if includes_str m (lit ''API key not valid'') \<or> includes_str m (lit ''API_KEY_INVALID'')
              \<or> includes_str m (lit ''API key is invalid'')
           then Error invalid_key_message
           else Error (prefix @ m))
      | NonError _ \<Rightarrow> Error unknown)"

definition extractTextFromImageData ::
    "service \<Rightarrow> jsstring option \<Rightarrow> jsstring \<Rightarrow> (thrown + jsstring) call" where
  "extractTextFromImageData env base64ImageData mimeType log =
     (case ensureApiKeyIsConfigured env of
        Inl e \<Rightarrow> (Inl e, log)
      | Inr _ \<Rightarrow>
          (case call_generateContent env (OcrRequest mimeType base64ImageData) log of
             (response, log') \<Rightarrow>
               (case (case response of
                        Inl e \<Rightarrow> Inl e
                      | Inr None \<Rightarrow> Inl (Error (lit ''OCR failed: Unexpected response format from AI.''))
                      | Inr (Some extractedText) \<Rightarrow> Inr (trim extractedText)) of
                  Inr t \<Rightarrow> (Inr t, log')
                | Inl e \<Rightarrow>
                    (Inl (rethrow (lit ''AI OCR service error: '')
                            (lit ''An unknown error occurred while communicating with the AI OCR service.'') e),
                     log'))))"

definition convertTextToMarkdown :: "service \<Rightarrow> jsstring \<Rightarrow> (thrown + jsstring) call" where
  "convertTextToMarkdown env rawText log =
     (case ensureApiKeyIsConfigured env of
        Inl e \<Rightarrow> (Inl e, log)
      | Inr _ \<Rightarrow>
          (if trim rawText = [] then (Inr [], log)
           else
             (case call_generateContent env (MarkdownRequest rawText) log of
                (response, log') \<Rightarrow>
                  (case (case response of
                           Inl e \<Rightarrow> Inl e
                         | Inr None \<Rightarrow>
                             Inl (Error (lit ''Markdown conversion failed: Unexpected response format from AI.''))
                         | Inr (Some markdownText) \<Rightarrow> Inr (cleanedText markdownText)) of
                     Inr t \<Rightarrow> (Inr t, log')
                   | Inl e \<Rightarrow>
                       (Inl (rethrow (lit ''AI Markdown conversion service error: '')
                               (lit ''An unknown error occurred while communicating with the AI Markdown conversion service.'') e),
                        log')))))"

definition translateText ::
    "service \<Rightarrow> jsstring \<Rightarrow> jsstring \<Rightarrow> jsstring option \<Rightarrow> (thrown + jsstring) call" where
  "translateText env text targetLanguageCode systemInstructionText log =
     (case ensureApiKeyIsConfigured env of
        Inl e \<Rightarrow> (Inl e, log)
      | Inr _ \<Rightarrow>
          (case call_generateContent env
                  (TranslateRequest text targetLanguageCode
                     (or_default systemInstructionText (lit ''You are a helpful translation assistant.'')))
                  log of
             (response, log') \<Rightarrow>
               (case (case response of
                        Inl e \<Rightarrow> Inl e
                      | Inr None \<Rightarrow> Inl (Error (lit ''Translation failed: Unexpected response format from AI.''))
                      | Inr (Some translatedMarkdown) \<Rightarrow> Inr (cleanedText translatedMarkdown)) of
                  Inr t \<Rightarrow> (Inr t, log')
                | Inl e \<Rightarrow>
                    (Inl (rethrow (lit ''AI translation service error: '')
                            (lit ''An unknown error occurred while communicating with the AI translation service.'') e),
                     log'))))"

section \<open>The speech hook\<close>

text \<open>
  A \<open>SpeechSynthesisVoice\<close> by the three properties the hook reads, and the utterance
  handed to \<open>window.speechSynthesis.speak\<close>.
\<close>

record voice =
  voice_name :: jsstring
  voice_lang :: jsstring
  voice_default :: bool

record utterance =
  utterance_text :: jsstring
  utterance_lang :: jsstring
  utterance_voice :: "voice option"

text \<open>\<open>xs.find(v => v.default) || xs[0]\<close>; \<open>None\<close> stands for \<open>undefined\<close>.\<close>

definition find_default_or_first :: "voice list \<Rightarrow> voice option" where
  "find_default_or_first xs =
     (case find voice_default xs of
        Some v \<Rightarrow> Some v
      | None \<Rightarrow> (case xs of [] \<Rightarrow> None | v # _ \<Rightarrow> Some v))"

text \<open>The voice selection of \<open>speak\<close>: the value of \<open>selectedVoice\<close> after the three steps.\<close>

definition selectedVoice :: "voice list \<Rightarrow> jsstring \<Rightarrow> voice option" where
  "selectedVoice voices languageCode =
     (let exactLangMatchVoices = filter (\<lambda>v. voice_lang v = languageCode) voices;
          selected1 = (if length exactLangMatchVoices > 0
                       then find_default_or_first exactLangMatchVoices else None);
          selected2 =
            (case selected1 of
               Some v \<Rightarrow> Some v
             | None \<Rightarrow>
                 (let baseLanguage = split_0 45 languageCode;
                      baseLangMatchVoices = filter (\<lambda>v. startsWith (voice_lang v) baseLanguage) voices
                  in if length baseLangMatchVoices > 0
                     then find_default_or_first baseLangMatchVoices else None))
      in case selected2 of
           Some v \<Rightarrow> Some v
         | None \<Rightarrow> (if length voices > 0 then find_default_or_first voices else None))"

definition make_utterance :: "voice list \<Rightarrow> jsstring \<Rightarrow> jsstring \<Rightarrow> utterance" where
  "make_utterance voices text languageCode =
     (case selectedVoice voices languageCode of
        Some v \<Rightarrow> \<lparr>utterance_text = text, utterance_lang = voice_lang v, utterance_voice = Some v\<rparr>
      | None \<Rightarrow> \<lparr>utterance_text = text, utterance_lang = languageCode, utterance_voice = None\<rparr>)"

section \<open>The application state\<close>

record TargetLanguage =
  code :: jsstring
  name :: jsstring

text \<open>
  The state variables of \<open>App\<close> and of the \<open>useTTS\<close> hook it uses, under their own names
  (\<open>isSupported\<close> is \<open>isTtsSupported\<close> in \<open>App\<close>).  \<open>speechSynthesis_present\<close> says whether
  \<open>window.speechSynthesis\<close> exists, and \<open>spoken\<close> lists the utterances handed to it.
\<close>

record app_state =
  inputText :: jsstring
  targetLanguage :: TargetLanguage
  translatedText :: jsstring
  isLoading :: bool
  error :: "jsstring option"
  isExtractingText :: bool
  isFormattingToMarkdown :: bool
  fileProcessingError :: "jsstring option"
  currentTtsError :: "jsstring option"
  isSpeaking :: bool
  isSynthesizing :: bool
  ttsError :: "jsstring option"
  voices :: "voice list"
  isSupported :: bool
  speechSynthesis_present :: bool
  currentUtterance :: "utterance option"
  spoken :: "utterance list"

definition cancel :: "app_state \<Rightarrow> app_state" where
  "cancel s =
     (if \<not> isSupported s \<or> \<not> speechSynthesis_present s then s
      else s\<lparr>isSpeaking := False, isSynthesizing := False, currentUtterance := None\<rparr>)"

definition speak :: "jsstring \<Rightarrow> jsstring \<Rightarrow> app_state \<Rightarrow> app_state" where
  "speak text languageCode s =
     (if \<not> isSupported s \<or> \<not> speechSynthesis_present s
      then s\<lparr>ttsError := Some (lit ''Text-to-Speech is not supported or initialized.'')\<rparr>
      else
        (let u = make_utterance (voices s) text languageCode
         in s\<lparr>isSpeaking := False, isSynthesizing := True, ttsError := None,
               currentUtterance := Some u, spoken := spoken s @ [u]\<rparr>))"

text \<open>
  The effect \<open>useEffect(() => { if (ttsError) setCurrentTtsError(ttsError) }, [ttsError])\<close>,
  run after a step that took the state from \<open>old\<close> to \<open>new\<close>.
\<close>

definition ttsError_effect :: "app_state \<Rightarrow> app_state \<Rightarrow> app_state" where
  "ttsError_effect old new =
     (if ttsError new = ttsError old then new
      else (case ttsError new of
              Some e \<Rightarrow> (if e \<noteq> [] then new\<lparr>currentTtsError := Some e\<rparr> else new)
            | None \<Rightarrow> new))"

text \<open>What the \<open>disabled\<close> attributes of the translate and the speak button evaluate to.\<close>

definition showOverallSpinner :: "app_state \<Rightarrow> bool" where
  "showOverallSpinner s = (isExtractingText s \<or> isFormattingToMarkdown s)"

definition translate_disabled :: "app_state \<Rightarrow> bool" where
  "translate_disabled s =
     (isLoading s \<or> showOverallSpinner s \<or> trim (inputText s) = []
      \<or> (isSupported s \<and> (isSynthesizing s \<or> isSpeaking s)))"

definition speak_disabled :: "app_state \<Rightarrow> bool" where
  "speak_disabled s =
     (\<not> isSupported s \<or> isLoading s \<or> showOverallSpinner s \<or> trim (translatedText s) = [])"

section \<open>File upload\<close>

text \<open>
  What the handler reads from the selected file: its name, its declared type, and the
  outcome of the two ways of reading it.  For a PDF, \<open>file.arrayBuffer()\<close> or
  \<open>pdfjsLib.getDocument\<close> rejects, or the document has pages; a page throws before its
  image exists (\<open>getPage\<close> or \<open>render\<close> rejects, or the canvas has no 2d context), or it
  is rendered and \<open>canvas.toDataURL\<close> gives a data URL.  For an image, the
  \<open>FileReader\<close> fires \<open>onerror\<close> with a value, or \<open>onload\<close> with \<open>reader.result\<close>, which
  is \<open>null\<close> or a data URL.
\<close>

datatype pdf_page = PageThrows thrown | PageRendered jsstring

record upload =
  file_name :: jsstring
  file_type :: jsstring
  pdf_document :: "thrown + pdf_page list"
  readAsDataURL :: "thrown + jsstring option"

definition validImageTypes :: "jsstring list" where
  "validImageTypes = [lit ''image/jpeg'', lit ''image/png'', lit ''image/webp'', lit ''image/jpg'']"

text \<open>The statements of \<open>handleFileUpload\<close> before the dispatch on the file type.\<close>

definition upload_begin :: "app_state \<Rightarrow> app_state" where
  "upload_begin s =
     (let s1 = s\<lparr>isExtractingText := True, isFormattingToMarkdown := False,
                  fileProcessingError := None, error := None, inputText := [],
                  translatedText := []\<rparr>
      in if isSupported s then cancel s1 else s1)"

text \<open>
  The loop over the pages of a PDF: \<open>fullRawText\<close> is the text accumulated so far.  A page
  that throws leaves the loop for the outer \<open>catch\<close> (\<open>Inl\<close>); a page whose data URL has no
  data is passed over; a page whose OCR call throws is logged and passed over.
\<close>

fun ocr_pages :: "service \<Rightarrow> pdf_page list \<Rightarrow> jsstring \<Rightarrow> (thrown + jsstring) call" where
  "ocr_pages env [] fullRawText log = (Inr fullRawText, log)"
| "ocr_pages env (PageThrows e # pages) fullRawText log = (Inl e, log)"
| "ocr_pages env (PageRendered imageDataUrl # pages) fullRawText log =
     (case split_1 44 imageDataUrl of
        None \<Rightarrow> ocr_pages env pages fullRawText log
      | Some base64ImageData \<Rightarrow>
          (if base64ImageData = [] then ocr_pages env pages fullRawText log
           else
             (case extractTextFromImageData env (Some base64ImageData) (lit ''image/jpeg'') log of
                (Inr textFromPage, log') \<Rightarrow>
                  ocr_pages env pages (fullRawText @ textFromPage @ [10, 10]) log'
              | (Inl ocrErr, log') \<Rightarrow> ocr_pages env pages fullRawText log')))"

text \<open>
  The reformatting step that both branches share, with the text of the warning that
  differs (\<open>kind\<close> is \<open>PDF\<close> or \<open>Image\<close>); \<open>inputText\<close> already holds the raw text.
\<close>

definition format_step :: "service \<Rightarrow> jsstring \<Rightarrow> jsstring \<Rightarrow> app_state \<Rightarrow> app_state call" where
  "format_step env kind rawText s log =
     (let s1 = s\<lparr>isFormattingToMarkdown := True\<rparr>
      in case convertTextToMarkdown env rawText log of
           (Inr markdownText, log') \<Rightarrow>
             (s1\<lparr>inputText := markdownText, isFormattingToMarkdown := False\<rparr>, log')
         | (Inl mdErr, log') \<Rightarrow>
             (s1\<lparr>fileProcessingError :=
                    Some (lit ''Markdown Conversion Error ('' @ kind @ lit ''): ''
                          @ or_default (message mdErr) (lit ''Could not format extracted text.'')
                          @ lit ''. Raw text loaded.''),
                  isFormattingToMarkdown := False\<rparr>,
              log'))"

definition pdf_catch :: "thrown \<Rightarrow> app_state \<Rightarrow> app_state" where
  "pdf_catch err s =
     s\<lparr>fileProcessingError :=
          Some (lit ''PDF Processing/OCR Error: '' @ or_default (message err) (lit ''Could not process PDF.'')),
        isExtractingText := False, isFormattingToMarkdown := False\<rparr>"

definition pdf_branch :: "service \<Rightarrow> upload \<Rightarrow> app_state \<Rightarrow> app_state call" where
  "pdf_branch env file s log =
     (case pdf_document file of
        Inl err \<Rightarrow> (pdf_catch err s, log)
      | Inr pages \<Rightarrow>
          (case ocr_pages env pages [] log of
             (Inl err, log') \<Rightarrow> (pdf_catch err s, log')
           | (Inr fullRawText, log') \<Rightarrow>
               (let rawPdfText = trim fullRawText
                in if rawPdfText \<noteq> []
                   then format_step env (lit ''PDF'') rawPdfText
                          (s\<lparr>inputText := rawPdfText, isExtractingText := False\<rparr>) log'
                   else (s\<lparr>fileProcessingError :=
                              Some (lit ''No text content could be extracted from the PDF (OCR).''),
                            isExtractingText := False\<rparr>,
                         log'))))"

text \<open>
  The outer \<open>catch\<close> of the image branch tests the \<open>fileProcessingError\<close> that the handler
  closed over, that is the one of the state \<open>s0\<close> in which the handler was created.
\<close>

definition image_catch :: "app_state \<Rightarrow> thrown \<Rightarrow> app_state \<Rightarrow> app_state" where
  "image_catch s0 err s =
     (let s1 = (if or_default (fileProcessingError s0) [] = []
                then s\<lparr>fileProcessingError :=
                         Some (lit ''Image Processing Error: ''
                               @ or_default (message err) (lit ''Could not process image file.''))\<rparr>
                else s)
      in s1\<lparr>isExtractingText := False, isFormattingToMarkdown := False\<rparr>)"

definition image_branch :: "service \<Rightarrow> app_state \<Rightarrow> upload \<Rightarrow> app_state \<Rightarrow> app_state call" where
  "image_branch env s0 file s log =
     (case (case readAsDataURL file of
              Inl e \<Rightarrow> Inl e
            | Inr None \<Rightarrow> Inl (Error (lit ''File reading resulted in null.''))
            | Inr (Some result) \<Rightarrow>
                (if result = [] then Inl (Error (lit ''File reading resulted in null.''))
                 else Inr (split_1 44 result))) of
        Inl err \<Rightarrow> (image_catch s0 err s, log)
      | Inr base64ImageData \<Rightarrow>
          (case extractTextFromImageData env base64ImageData (file_type file) log of
             (Inl ocrErr, log') \<Rightarrow>
               (s\<lparr>fileProcessingError :=
                    Some (lit ''Image OCR Error: ''
                          @ or_default (message ocrErr) (lit ''Could not extract text from image.'')),
                  isExtractingText := False\<rparr>,
                log')
           | (Inr rawTextFromImage, log') \<Rightarrow>
               (let s1 = s\<lparr>inputText := rawTextFromImage, isExtractingText := False\<rparr>
                in if trim rawTextFromImage \<noteq> []
                   then format_step env (lit ''Image'') rawTextFromImage s1 log'
                   else (s1\<lparr>fileProcessingError :=
                               Some (lit ''No text content could be extracted from the image (OCR).'')\<rparr>,
                         log'))))"

definition unsupported_message :: "upload \<Rightarrow> jsstring" where
  "unsupported_message file =
     lit ''Unsupported file type: '' @ file_name file @ lit '' ('' @ file_type file
     @ lit ''). Please upload a PDF, JPG, PNG, or WEBP file.''"

text \<open>
  \<open>handleFileUpload\<close>: \<open>None\<close> is an event without a file.  The result is the state once
  the handler has run to its end, with the requests it has issued.
\<close>

definition handleFileUpload :: "service \<Rightarrow> upload option \<Rightarrow> app_state \<Rightarrow> app_state call" where
  "handleFileUpload env event s log =
     (case event of
        None \<Rightarrow> (s, log)
      | Some file \<Rightarrow>
          (let s1 = upload_begin s
           in if file_type file = lit ''application/pdf'' then pdf_branch env file s1 log
              else if toLowerCase (file_type file) \<in> set validImageTypes
              then image_branch env s file s1 log
              else (s1\<lparr>fileProcessingError := Some (unsupported_message file),
                      isExtractingText := False\<rparr>,
                    log)))"

section \<open>Speaking and rendering\<close>

text \<open>
  The libraries behind the rendering, as parameters: \<open>marked.parse\<close>, \<open>DOMPurify.sanitize\<close>
  with its configuration, and the \<open>textContent\<close> and \<open>innerText\<close> of a \<open>div\<close> whose
  \<open>innerHTML\<close> was set to the given markup.
\<close>

datatype sanitize_config = DefaultConfig | HtmlProfile

record dom =
  marked_parse :: "jsstring \<Rightarrow> jsstring"
  sanitize :: "sanitize_config \<Rightarrow> jsstring \<Rightarrow> jsstring"
  textContent :: "jsstring \<Rightarrow> jsstring"
  innerText :: "jsstring \<Rightarrow> jsstring"

text \<open>\<open>tempDiv.textContent || tempDiv.innerText || ""\<close> in \<open>handleSpeakOrStop\<close>.\<close>

definition textToSpeak :: "dom \<Rightarrow> jsstring \<Rightarrow> jsstring" where
  "textToSpeak d translated =
     (let html = sanitize d HtmlProfile (marked_parse d translated)
      in if textContent d html \<noteq> [] then textContent d html else innerText d html)"

definition handleSpeakOrStop :: "dom \<Rightarrow> app_state \<Rightarrow> app_state" where
  "handleSpeakOrStop d s =
     (if \<not> isSupported s
      then s\<lparr>currentTtsError := Some (lit ''Text-to-Speech is not supported by this browser.'')\<rparr>
      else
        (let s1 = s\<lparr>currentTtsError := None\<rparr>
         in if isSpeaking s \<or> isSynthesizing s then cancel s1
            else if translatedText s \<noteq> []
            then (if trim (textToSpeak d (translatedText s)) \<noteq> []
                  then ttsError_effect s1
                         (speak (trim (textToSpeak d (translatedText s))) (code (targetLanguage s)) s1)
                  else s1\<lparr>currentTtsError := Some (lit ''No text content available to speak.'')\<rparr>)
            else s1))"

text \<open>
  The two panes that show a buffer: what is given to \<open>dangerouslySetInnerHTML\<close>, or \<open>None\<close>
  when the pane is not rendered.
\<close>

definition input_html :: "dom \<Rightarrow> app_state \<Rightarrow> jsstring option" where
  "input_html d s =
     (if inputText s \<noteq> []
         \<and> (\<not> showOverallSpinner s \<or> (showOverallSpinner s \<and> inputText s \<noteq> []))
      then Some (sanitize d DefaultConfig (marked_parse d (inputText s)))
      else None)"

definition translated_html :: "dom \<Rightarrow> app_state \<Rightarrow> jsstring option" where
  "translated_html d s =
     (if translatedText s \<noteq> [] \<and> \<not> isLoading s
      then Some (sanitize d DefaultConfig (marked_parse d (translatedText s)))
      else None)"

section \<open>Requests and example inputs\<close>

text \<open>The requests that the OCR operation issues.\<close>

fun is_ocr_request :: "request \<Rightarrow> bool" where
  "is_ocr_request (OcrRequest m d) = True"
| "is_ocr_request _ = False"

text \<open>
  Concrete inputs on which the theorems below are exercised: a state with old buffers and
  old messages, a PDF with given pages, a file read as a data URL, and four services.
\<close>

definition example_state :: app_state where
  "example_state =
     \<lparr>inputText = lit ''Old document'',
      targetLanguage = \<lparr>code = lit ''en-US'', name = lit ''English (US)''\<rparr>,
      translatedText = lit ''Old translation'',
      isLoading = False,
      error = Some (lit ''Old translation error''),
      isExtractingText = False,
      isFormattingToMarkdown = False,
      fileProcessingError = None,
      currentTtsError = Some (lit ''Speech error: synthesis-failed''),
      isSpeaking = False,
      isSynthesizing = False,
      ttsError = Some (lit ''Speech error: synthesis-failed''),
      voices = [],
      isSupported = True,
      speechSynthesis_present = True,
      currentUtterance = None,
      spoken = []\<rparr>"

definition example_pdf :: "pdf_page list \<Rightarrow> upload" where
  "example_pdf pages =
     \<lparr>file_name = lit ''tbm.pdf'', file_type = lit ''application/pdf'',
      pdf_document = Inr pages, readAsDataURL = Inr None\<rparr>"

definition page_image :: "string \<Rightarrow> pdf_page" where
  "page_image d = PageRendered (lit ''data:image/jpeg;base64,'' @ lit d)"

definition example_image :: "string \<Rightarrow> upload" where
  "example_image t =
     \<lparr>file_name = lit ''tbm.scan'', file_type = lit t,
      pdf_document = Inl (Error (lit ''Invalid PDF structure.'')),
      readAsDataURL = Inr (Some (lit ''data:'' @ lit t @ lit '';base64,CCCC''))\<rparr>"

definition example_service :: service where
  "example_service =
     \<lparr>API_KEY = Some (lit ''key''),
      generateContent =
        (\<lambda>n req. case req of
            OcrRequest m d \<Rightarrow> Inr (Some (lit '' Wear a helmet ''))
          | MarkdownRequest t \<Rightarrow> Inr (Some (lit ''```markdown\<newline># Wear a helmet\<newline>```''))
          | TranslateRequest t l i \<Rightarrow> Inr (Some (lit ''# Use casco'')))\<rparr>"

definition formatting_fails_service :: service where
  "formatting_fails_service =
     \<lparr>API_KEY = Some (lit ''key''),
      generateContent =
        (\<lambda>n req. case req of
            OcrRequest m d \<Rightarrow> Inr (Some (lit '' Wear a helmet ''))
          | MarkdownRequest t \<Rightarrow> Inl (Error (lit ''overloaded''))
          | TranslateRequest t l i \<Rightarrow> Inl (Error (lit ''overloaded'')))\<rparr>"

text \<open>A service whose first call throws and whose later calls answer with blank text.\<close>

definition blank_service :: service where
  "blank_service =
     \<lparr>API_KEY = Some (lit ''key''),
      generateContent = (\<lambda>n req. if n = 0 then Inl (Error (lit ''unavailable'')) else Inr (Some (lit '' '')))\<rparr>"

text \<open>A service whose second call throws; an OCR request is answered from its data.\<close>

definition second_call_fails_service :: service where
  "second_call_fails_service =
     \<lparr>API_KEY = Some (lit ''key''),
      generateContent =
        (\<lambda>n req. if n = 1 then Inl (Error (lit ''unavailable''))
                  else (case req of
                          OcrRequest m d \<Rightarrow> Inr (Some (lit ''text '' @ (case d of Some x \<Rightarrow> x | None \<Rightarrow> [])))
                        | MarkdownRequest t \<Rightarrow> Inr (Some t)
                        | TranslateRequest t l i \<Rightarrow> Inr (Some t)))\<rparr>"

text \<open>Every answer of the service is an error, no text, or blank text.\<close>

abbreviation (input) blank_or_failing :: "service \<Rightarrow> bool" where
  "blank_or_failing env \<equiv>
     (\<forall>n req. case generateContent env n req of Inr (Some t) \<Rightarrow> trim t = [] | _ \<Rightarrow> True)"

section \<open>The voice resolution order of the specification\<close>

text \<open>
  The order as the specification words it, for comparison with \<open>selectedVoice\<close>: tiers of
  candidates are tried in turn, and within the first tier that has a candidate a voice
  flagged as default is preferred.  The tiers of the specification are the voices with
  exactly the requested tag, the voices with the same primary subtag (the part of a tag
  before its first hyphen), and all voices.
\<close>

definition primary_subtag :: "jsstring \<Rightarrow> jsstring" where
  "primary_subtag tag = takeWhile (\<lambda>c. c \<noteq> 45) tag"

definition prefer_default :: "voice list \<Rightarrow> voice option" where
  "prefer_default candidates =
     (case filter voice_default candidates of
        d # _ \<Rightarrow> Some d
      | [] \<Rightarrow> (case candidates of c # _ \<Rightarrow> Some c | [] \<Rightarrow> None))"

fun resolve_in_order :: "(voice \<Rightarrow> bool) list \<Rightarrow> voice list \<Rightarrow> voice option" where
  "resolve_in_order [] available = None"
| "resolve_in_order (tier # tiers) available =
     (case filter tier available of
        [] \<Rightarrow> resolve_in_order tiers available
      | c # cs \<Rightarrow> prefer_default (c # cs))"

definition spec_voice_resolution :: "voice list \<Rightarrow> jsstring \<Rightarrow> voice option" where
  "spec_voice_resolution available tag =
     resolve_in_order
       [\<lambda>v. voice_lang v = tag,
        \<lambda>v. primary_subtag (voice_lang v) = primary_subtag tag,
        \<lambda>v. True]
       available"

text \<open>More example inputs: a voice, and stand-ins for the rendering libraries.\<close>

definition example_voice :: "string \<Rightarrow> string \<Rightarrow> bool \<Rightarrow> voice" where
  "example_voice n l d = \<lparr>voice_name = lit n, voice_lang = lit l, voice_default = d\<rparr>"

text \<open>
  The stand-ins behave as the libraries do on a paragraph of plain text: \<open>marked.parse\<close>
  wraps it in a \<open>p\<close> element followed by a line feed, \<open>DOMPurify.sanitize\<close> leaves that
  markup as it is, and the text content of the element is the markup without its tags.
\<close>

fun strip_tags :: "bool \<Rightarrow> jsstring \<Rightarrow> jsstring" where
  "strip_tags inside [] = []"
| "strip_tags inside (c # cs) =
     (if c = 60 then strip_tags True cs
      else if inside then strip_tags (c \<noteq> 62) cs
      else c # strip_tags False cs)"

definition example_dom :: dom where
  "example_dom =
     \<lparr>marked_parse = (\<lambda>t. lit ''<p>'' @ t @ lit ''</p>\<newline>''),
      sanitize = (\<lambda>config html. html),
      textContent = strip_tags False,
      innerText = strip_tags False\<rparr>"

section \<open>Trimming and the fence pattern\<close>

lemma is_space_bq [simp]: "\<not> is_space 96" by (simp add: is_space_def)
lemma is_space_lf [simp]: "is_space 10" by (simp add: is_space_def)
lemma is_word_lf [simp]: "\<not> is_word 10" by (simp add: is_word_def)

lemma dropWhile_hd_id: "xs = [] \<or> \<not> P (hd xs) \<Longrightarrow> dropWhile P xs = xs"
  by (cases xs) auto

lemma hd_dropWhile_not: "dropWhile P xs \<noteq> [] \<Longrightarrow> \<not> P (hd (dropWhile P xs))"
  by (metis hd_dropWhile)

lemma last_dropWhile: "dropWhile P xs \<noteq> [] \<Longrightarrow> last (dropWhile P xs) = last xs"
  by (metis last_appendR takeWhile_dropWhile_id)

lemma trim_ends:
  "trim s = [] \<or> (\<not> is_space (hd (trim s)) \<and> \<not> is_space (last (trim s)))"
proof (cases "trim s = []")
  case True then show ?thesis by simp
next
  case False
  define d where "d = dropWhile is_space s"
  define e where "e = dropWhile is_space (rev d)"
  have t: "trim s = rev e" by (simp add: trim_def d_def e_def)
  with False have ne: "e \<noteq> []" by simp
  then have dne: "d \<noteq> []" by (auto simp: e_def)
  have "\<not> is_space (hd e)" using ne unfolding e_def by (rule hd_dropWhile_not)
  moreover have "last e = last (rev d)" using ne unfolding e_def by (rule last_dropWhile)
  then have "last e = hd d" using dne by (simp add: last_rev)
  moreover have "\<not> is_space (hd d)" using dne unfolding d_def by (rule hd_dropWhile_not)
  ultimately show ?thesis using ne by (simp add: t hd_rev last_rev)
qed

lemma trim_id: "s = [] \<or> (\<not> is_space (hd s) \<and> \<not> is_space (last s)) \<Longrightarrow> trim s = s"
proof (cases "s = []")
  case True then show ?thesis by (simp add: trim_def)
next
  case False
  assume "s = [] \<or> (\<not> is_space (hd s) \<and> \<not> is_space (last s))"
  with False have h: "\<not> is_space (hd s)" and l: "\<not> is_space (last s)" by auto
  have 1: "dropWhile is_space s = s" using h by (simp add: dropWhile_hd_id)
  have "dropWhile is_space (rev s) = rev s" using l False by (simp add: dropWhile_hd_id hd_rev)
  then show ?thesis by (simp add: trim_def 1)
qed

lemma trim_trim: "trim (trim s) = trim s"
  using trim_ends [of s] by (auto intro: trim_id)

lemma trim_Nil_iff: "trim s = [] \<longleftrightarrow> (\<forall>c \<in> set s. is_space c)"
proof
  assume "trim s = []"
  then have "dropWhile is_space (rev (dropWhile is_space s)) = []" by (simp add: trim_def)
  then have "\<forall>c \<in> set (dropWhile is_space s). is_space c" by (simp add: dropWhile_eq_Nil_conv)
  then have "dropWhile is_space s = []"
    by (metis hd_dropWhile hd_in_set)
  then show "\<forall>c \<in> set s. is_space c" by (simp add: dropWhile_eq_Nil_conv)
next
  assume "\<forall>c \<in> set s. is_space c"
  then have h: "dropWhile is_space s = []" by simp
  show "trim s = []" unfolding trim_def h by simp
qed

lemma trim_decomp:
  "\<exists>sp ws. s = sp @ trim s @ ws \<and> (\<forall>c \<in> set sp. is_space c) \<and> (\<forall>c \<in> set ws. is_space c)"
proof -
  define d where "d = dropWhile is_space s"
  have "rev d = takeWhile is_space (rev d) @ dropWhile is_space (rev d)" by simp
  then have "rev (rev d) = rev (takeWhile is_space (rev d) @ dropWhile is_space (rev d))" by simp
  then have "d = rev (dropWhile is_space (rev d)) @ rev (takeWhile is_space (rev d))"
    by (simp only: rev_append rev_rev_ident)
  then have "d = trim s @ rev (takeWhile is_space (rev d))"
    by (simp only: trim_def d_def)
  moreover have "s = takeWhile is_space s @ d" by (simp add: d_def)
  ultimately have "s = takeWhile is_space s @ trim s @ rev (takeWhile is_space (rev d))" by simp
  moreover have "\<forall>c \<in> set (takeWhile is_space s). is_space c" by (auto dest: set_takeWhileD)
  moreover have "\<forall>c \<in> set (rev (takeWhile is_space (rev d))). is_space c" by (auto dest: set_takeWhileD)
  ultimately show ?thesis by blast
qed

lemma closing_ok_iff: "closing_ok r \<longleftrightarrow> dropWhile is_space r = fence"
  by (cases r) (auto simp: closing_ok_def)

lemma closing_ok_spaces:
  "\<forall>c \<in> set ws. is_space c \<Longrightarrow> closing_ok (ws @ fence)"
  by (simp add: closing_ok_iff dropWhile_append3 fence_def dropWhile_append)

lemma not_closing_ok:
  assumes "core \<noteq> []" "\<not> is_space (last core)"
  shows "\<not> closing_ok (core @ r @ fence)"
proof
  assume "closing_ok (core @ r @ fence)"
  then have d: "dropWhile is_space (core @ r @ fence) = fence" by (simp add: closing_ok_iff)
  have "core @ r @ fence = takeWhile is_space (core @ r @ fence) @ dropWhile is_space (core @ r @ fence)"
    by simp
  then have "(core @ r) @ fence = takeWhile is_space (core @ r @ fence) @ fence"
    by (simp only: d append_assoc)
  then have "core @ r = takeWhile is_space (core @ r @ fence)" by (simp only: append_same_eq)
  then have "\<forall>c \<in> set (core @ r). is_space c" by (metis set_takeWhileD)
  moreover have "last core \<in> set (core @ r)" using assms(1) by simp
  ultimately show False using assms(2) by blast
qed

lemma lazy_body_ok: "closing_ok r \<Longrightarrow> lazy_body acc r = Some (rev acc)"
  by (cases r) auto

lemma lazy_body_core:
  "core = [] \<or> \<not> is_space (last core) \<Longrightarrow> \<forall>c \<in> set ws. is_space c \<Longrightarrow>
   lazy_body acc (core @ ws @ fence) = Some (rev acc @ core)"
proof (induction core arbitrary: acc)
  case Nil
  then show ?case by (simp add: lazy_body_ok closing_ok_spaces)
next
  case (Cons c core)
  have "\<not> closing_ok ((c # core) @ ws @ fence)"
    using Cons.prems(1) by (intro not_closing_ok) auto
  then have "lazy_body acc ((c # core) @ ws @ fence) = lazy_body (c # acc) (core @ ws @ fence)"
    by simp
  also have "\<dots> = Some (rev (c # acc) @ core)"
    using Cons.prems by (intro Cons.IH) (auto split: if_splits)
  finally show ?case by simp
qed

lemma opt_newline_no_lf: "r = [] \<or> hd r \<noteq> 10 \<Longrightarrow> opt_newline r = lazy_body [] r"
  by (cases r) (auto simp: opt_newline_def)

lemma spaces_then_run:
  "\<forall>c \<in> set sp. is_space c \<Longrightarrow> r = [] \<or> \<not> is_space (hd r) \<Longrightarrow> opt_newline r = Some b \<Longrightarrow>
   spaces_then (sp @ r) = Some b"
proof (induction sp)
  case Nil
  then show ?case by (cases r) auto
next
  case (Cons c sp)
  then show ?case by simp
qed

lemma tag_then_run:
  "\<forall>c \<in> set tag. is_word c \<Longrightarrow> r = [] \<or> \<not> is_word (hd r) \<Longrightarrow> spaces_then r = Some b \<Longrightarrow>
   tag_then (tag @ r) = Some b"
proof (induction tag)
  case Nil
  then show ?case by (cases r) auto
next
  case (Cons c tag)
  then show ?case by simp
qed

lemma is_space_not_word: "is_space c \<Longrightarrow> \<not> is_word c"
  by (auto simp: is_space_def is_word_def)

lemma fenceRegex_match_empty:
  assumes tag: "\<forall>c \<in> set tag. is_word c" and ws: "\<forall>c \<in> set ws. is_space c"
  shows "fenceRegex_match (fence @ tag @ ws @ fence) = Some []"
proof -
  have "closing_ok fence" using closing_ok_spaces [of "[]"] by simp
  then have "lazy_body [] fence = Some []" by (simp add: lazy_body_ok)
  then have "opt_newline fence = Some []" by (simp add: opt_newline_no_lf fence_def)
  then have sp: "spaces_then (ws @ fence) = Some []"
    using ws by (intro spaces_then_run) (auto simp: fence_def)
  have "ws @ fence = [] \<or> \<not> is_word (hd (ws @ fence))"
  proof (cases ws)
    case Nil
    then show ?thesis by (simp add: fence_def is_word_def)
  next
    case (Cons c cs)
    with ws have "is_space c" by simp
    then have "\<not> is_word c" by (rule is_space_not_word)
    with Cons show ?thesis by simp
  qed
  with sp have "tag_then (tag @ ws @ fence) = Some []"
    using tag by (intro tag_then_run) auto
  then show ?thesis
    by (simp add: fenceRegex_match_def startsWith_def fence_def)
qed

lemma fenceRegex_match_body:
  assumes tag: "\<forall>c \<in> set tag. is_word c" and nonblank: "trim body \<noteq> []"
  shows "fenceRegex_match (fence @ tag @ 10 # body @ 10 # fence) = Some (trim body)"
proof -
  obtain sp ws where body: "body = sp @ trim body @ ws"
    and sp: "\<forall>c \<in> set sp. is_space c" and ws: "\<forall>c \<in> set ws. is_space c"
    using trim_decomp by blast
  define core where "core = trim body"
  have ne: "core \<noteq> []" using nonblank by (simp add: core_def)
  have ends: "\<not> is_space (hd core) \<and> \<not> is_space (last core)"
    using trim_ends [of body] ne by (simp add: core_def)
  define r where "r = core @ (ws @ [10]) @ fence"
  have lazy: "lazy_body [] r = Some core"
    unfolding r_def using ends ws lazy_body_core [of core "ws @ [10]" "[]"] by auto
  have hd_r: "\<not> is_space (hd r)"
    using ends ne by (cases core) (auto simp: r_def)
  then have "hd r \<noteq> 10" by auto
  then have "opt_newline r = Some core" using lazy by (simp add: opt_newline_no_lf)
  then have "spaces_then ((10 # sp) @ r) = Some core"
    using sp hd_r by (intro spaces_then_run) auto
  then have "tag_then (tag @ (10 # sp) @ r) = Some core"
    using tag by (intro tag_then_run) auto
  moreover have "10 # body @ 10 # fence = (10 # sp) @ r"
    using body by (simp add: r_def core_def)
  ultimately have "tag_then (tag @ 10 # body @ 10 # fence) = Some core" by simp
  then show ?thesis
    by (simp add: fenceRegex_match_def startsWith_def fence_def core_def)
qed

lemma cleanedText_trimmed: "trim (cleanedText t) = cleanedText t"
  by (simp add: cleanedText_def Let_def trim_trim split: option.splits)

lemma endsWith_iff: "endsWith s p \<longleftrightarrow> (\<exists>q. s = q @ p)"
proof
  assume "endsWith s p"
  then have "s = take (length s - length p) s @ p"
    by (metis append_take_drop_id endsWith_def)
  then show "\<exists>q. s = q @ p" ..
next
  assume "\<exists>q. s = q @ p"
  then show "endsWith s p" by (auto simp: endsWith_def)
qed

lemma closing_ok_ends: "closing_ok r \<Longrightarrow> endsWith r fence"
proof -
  assume "closing_ok r"
  then have "dropWhile is_space r = fence" by (simp add: closing_ok_iff)
  then have "r = takeWhile is_space r @ fence" by (metis takeWhile_dropWhile_id)
  then show ?thesis unfolding endsWith_iff ..
qed

lemma endsWith_Cons: "endsWith t p \<Longrightarrow> endsWith (c # t) p"
  unfolding endsWith_iff by (metis append_Cons)

lemma lazy_body_ends: "lazy_body acc r = Some b \<Longrightarrow> endsWith r fence"
  by (induction r arbitrary: acc) (auto split: if_splits intro: closing_ok_ends endsWith_Cons)

lemma opt_newline_ends: "opt_newline r = Some b \<Longrightarrow> endsWith r fence"
proof -
  assume "opt_newline r = Some b"
  then have "lazy_body [] r = Some b \<or> (\<exists>c t. r = c # t \<and> lazy_body [] t = Some b)"
    by (auto simp: opt_newline_def simp del: lazy_body.simps
             split: list.splits if_splits option.splits)
  then show ?thesis by (auto dest: lazy_body_ends intro: endsWith_Cons)
qed

lemma spaces_then_ends: "spaces_then r = Some b \<Longrightarrow> endsWith r fence"
proof (induction r)
  case Nil
  then show ?case by (auto dest: opt_newline_ends)
next
  case (Cons c r)
  then have "spaces_then r = Some b \<or> opt_newline (c # r) = Some b"
    by (auto split: if_splits option.splits)
  then show ?case using Cons.IH by (auto dest: opt_newline_ends intro: endsWith_Cons)
qed

lemma tag_then_ends: "tag_then r = Some b \<Longrightarrow> endsWith r fence"
proof (induction r)
  case Nil
  then show ?case by (auto dest: spaces_then_ends simp del: spaces_then.simps)
next
  case (Cons c r)
  then have "tag_then r = Some b \<or> spaces_then (c # r) = Some b"
    by (auto split: if_splits option.splits simp del: spaces_then.simps)
  then show ?case using Cons.IH by (auto dest: spaces_then_ends intro: endsWith_Cons simp del: spaces_then.simps)
qed

lemma fenceRegex_match_ends:
  assumes "fenceRegex_match s = Some b"
  shows "startsWith s fence \<and> endsWith s fence"
proof -
  from assms have st: "startsWith s fence" and "tag_then (drop 3 s) = Some b"
    by (auto simp: fenceRegex_match_def split: if_splits)
  then have "endsWith (drop 3 s) fence" by (auto dest: tag_then_ends)
  then obtain q where "drop 3 s = q @ fence" unfolding endsWith_iff ..
  then have "s = (take 3 s @ q) @ fence" by (metis append_assoc append_take_drop_id)
  then have "endsWith s fence" unfolding endsWith_iff ..
  with st show ?thesis ..
qed

lemma cleanedText_unwrapped:
  assumes "\<not> startsWith (trim t) fence \<or> \<not> endsWith (trim t) fence"
  shows "cleanedText t = trim t"
proof (cases "fenceRegex_match (trim t)")
  case None
  then show ?thesis by (simp add: cleanedText_def)
next
  case (Some b)
  with assms show ?thesis by (auto dest: fenceRegex_match_ends)
qed

section \<open>Fence stripping\<close>

text \<open>
  Claim C1, as amended.  A text whose trimmed form does not both start and end with the
  fence marker is returned trimmed, and a second application changes nothing.  A text
  whose trimmed form is a fenced block (the marker, a tag of word characters that may be
  empty, a line feed, a body, a line feed, the marker) with a body that is not blank
  yields the trimmed body.  A text whose trimmed form is a fenced block with nothing but
  white space after the tag is returned trimmed, fence included, because an empty second
  group does not replace the text.  Whenever the result does not both start and end with
  the marker, a second application changes nothing; the transform removes one enclosing
  fence, so it is not idempotent on a block whose body is again a fenced block with
  a body that is not blank.
\<close>

theorem cleanedText_single_fence:
  "(\<not> startsWith (trim t) fence \<or> \<not> endsWith (trim t) fence \<longrightarrow>
      cleanedText t = trim t \<and> cleanedText (cleanedText t) = cleanedText t)
   \<and> ((\<forall>c \<in> set tag. is_word c) \<and> trim t = fence @ tag @ 10 # body @ 10 # fence \<and> trim body \<noteq> [] \<longrightarrow>
      cleanedText t = trim body)
   \<and> ((\<forall>c \<in> set tag. is_word c) \<and> (\<forall>c \<in> set ws. is_space c) \<and> trim t = fence @ tag @ ws @ fence \<longrightarrow>
      cleanedText t = trim t)
   \<and> (\<not> startsWith (cleanedText t) fence \<or> \<not> endsWith (cleanedText t) fence \<longrightarrow>
      cleanedText (cleanedText t) = cleanedText t)"
proof (intro conjI impI)
  assume h: "\<not> startsWith (trim t) fence \<or> \<not> endsWith (trim t) fence"
  then show "cleanedText t = trim t" by (rule cleanedText_unwrapped)
  then show "cleanedText (cleanedText t) = cleanedText t"
    using h cleanedText_unwrapped [of "trim t"] by (simp add: trim_trim)
next
  assume "(\<forall>c \<in> set tag. is_word c) \<and> trim t = fence @ tag @ 10 # body @ 10 # fence \<and> trim body \<noteq> []"
  then show "cleanedText t = trim body"
    by (simp add: cleanedText_def fenceRegex_match_body trim_trim)
next
  assume "(\<forall>c \<in> set tag. is_word c) \<and> (\<forall>c \<in> set ws. is_space c) \<and> trim t = fence @ tag @ ws @ fence"
  then show "cleanedText t = trim t"
    by (simp add: cleanedText_def fenceRegex_match_empty)
next
  assume "\<not> startsWith (cleanedText t) fence \<or> \<not> endsWith (cleanedText t) fence"
  then show "cleanedText (cleanedText t) = cleanedText t"
    using cleanedText_unwrapped [of "cleanedText t"] by (simp add: cleanedText_trimmed)
qed

text \<open>
  The theorem at four texts: an unwrapped one with spaces around it, a fenced block with
  a tag, a fenced block without a body, and the second application to the first block.
\<close>

theorem cleanedText_single_fence_witness:
  "cleanedText (lit '' # Title '') = lit ''# Title''
   \<and> cleanedText (cleanedText (lit '' # Title '')) = cleanedText (lit '' # Title '')
   \<and> cleanedText (lit ''  ```js\<newline> hello \<newline>```  '') = lit ''hello''
   \<and> cleanedText (lit ''```js\<newline>```'') = lit ''```js\<newline>```''
   \<and> cleanedText (cleanedText (lit ''  ```js\<newline> hello \<newline>```  ''))
       = cleanedText (lit ''  ```js\<newline> hello \<newline>```  '')"
proof -
  define plain where "plain = lit '' # Title ''"
  define block where "block = lit ''  ```js\<newline> hello \<newline>```  ''"
  define blank where "blank = lit ''```js\<newline>```''"
  have t1: "trim plain = lit ''# Title''"
    by (simp add: plain_def trim_def lit_def is_space_def)
  have h1: "\<not> startsWith (trim plain) fence \<or> \<not> endsWith (trim plain) fence"
    unfolding t1 by (simp add: startsWith_def lit_def fence_def)
  have a1: "cleanedText plain = trim plain"
    and c1': "cleanedText (cleanedText plain) = cleanedText plain"
    using cleanedText_single_fence [of plain] h1 by blast+
  from a1 t1 have c1: "cleanedText plain = lit ''# Title''" by (rule trans)
  have w: "\<forall>c \<in> set (lit ''js''). is_word c" by (simp add: lit_def is_word_def)
  have t2: "trim block = fence @ lit ''js'' @ 10 # lit '' hello '' @ 10 # fence"
    by (simp add: block_def trim_def lit_def fence_def is_space_def)
  have b2: "trim (lit '' hello '') = lit ''hello''" by (simp add: trim_def lit_def is_space_def)
  have n2: "trim (lit '' hello '') \<noteq> []" unfolding b2 by (simp add: lit_def)
  have "cleanedText block = trim (lit '' hello '')"
    using cleanedText_single_fence [of block "lit ''js''" "lit '' hello ''"] w t2 n2 by blast
  from this b2 have c2: "cleanedText block = lit ''hello''" by (rule trans)
  have t3: "trim blank = fence @ lit ''js'' @ [10] @ fence"
    by (simp add: blank_def trim_def lit_def fence_def is_space_def)
  have s3: "\<forall>c \<in> set [10]. is_space c" by simp
  have a3: "cleanedText blank = trim blank"
    using cleanedText_single_fence [where t = blank and tag = "lit ''js''" and ws = "[10]"] w s3 t3
    by blast
  have "trim blank = blank"
    by (simp add: blank_def trim_def lit_def is_space_def)
  with a3 have c3: "cleanedText blank = blank" by (rule trans)
  have h4: "\<not> startsWith (cleanedText block) fence \<or> \<not> endsWith (cleanedText block) fence"
    unfolding c2 by (simp add: startsWith_def lit_def fence_def)
  have c4: "cleanedText (cleanedText block) = cleanedText block"
    using cleanedText_single_fence [of block] h4 by blast
  show ?thesis using c1 c1' c2 c3 c4 unfolding plain_def block_def blank_def by blast
qed

text \<open>
  Claim C1 as stated fails twice.  A fenced block without a body is returned with its
  fence, not as its empty body.  On a fenced block whose body is a fenced block the first
  application removes the outer fence and the second the inner one, so the second
  application changes the text.
\<close>

theorem cleanedText_empty_block_and_nested_fence:
  "cleanedText (lit ''```js\<newline>```'') = lit ''```js\<newline>```''
   \<and> cleanedText (lit ''```js\<newline>```'') \<noteq> []
   \<and> cleanedText (lit ''```\<newline>```\<newline>b\<newline>```\<newline>```'') = lit ''```\<newline>b\<newline>```''
   \<and> cleanedText (cleanedText (lit ''```\<newline>```\<newline>b\<newline>```\<newline>```'')) = lit ''b''
   \<and> cleanedText (cleanedText (lit ''```\<newline>```\<newline>b\<newline>```\<newline>```''))
       \<noteq> cleanedText (lit ''```\<newline>```\<newline>b\<newline>```\<newline>```'')"
  by (simp add: cleanedText_def trim_def fenceRegex_match_def startsWith_def fence_def
      opt_newline_def closing_ok_def is_space_def is_word_def lit_def)

section \<open>The upload handler\<close>

lemma upload_begin_fields:
  "fileProcessingError (upload_begin s) = None"
  "error (upload_begin s) = None"
  "inputText (upload_begin s) = []"
  "translatedText (upload_begin s) = []"
  "isExtractingText (upload_begin s) = True"
  "isFormattingToMarkdown (upload_begin s) = False"
  "currentTtsError (upload_begin s) = currentTtsError s"
  "isLoading (upload_begin s) = isLoading s"
  "isSupported (upload_begin s) = isSupported s"
  by (simp_all add: upload_begin_def cancel_def Let_def)

lemma handleFileUpload_pdf:
  "file_type file = lit ''application/pdf'' \<Longrightarrow>
   handleFileUpload env (Some file) s log = pdf_branch env file (upload_begin s) log"
  by (simp add: handleFileUpload_def Let_def)

lemma pdf_branch_pages:
  "pdf_document file = Inr pages \<Longrightarrow> ocr_pages env pages [] log = (Inr fullRawText, log') \<Longrightarrow>
   pdf_branch env file s log =
     (if trim fullRawText \<noteq> []
      then format_step env (lit ''PDF'') (trim fullRawText)
             (s\<lparr>inputText := trim fullRawText, isExtractingText := False\<rparr>) log'
      else (s\<lparr>fileProcessingError := Some (lit ''No text content could be extracted from the PDF (OCR).''),
              isExtractingText := False\<rparr>, log'))"
  by (simp add: pdf_branch_def Let_def)

lemma extract_log:
  "extractTextFromImageData env d m log = (r, log') \<Longrightarrow>
   log' = log \<or> log' = log @ [OcrRequest m d]"
  by (auto simp: extractTextFromImageData_def call_generateContent_def
           split: sum.splits option.splits)

lemma ocr_pages_log:
  "ocr_pages env pages fullRawText log = (r, log') \<Longrightarrow>
   \<exists>new. log' = log @ new \<and> (\<forall>q \<in> set new. is_ocr_request q)"
proof (induction env pages fullRawText log rule: ocr_pages.induct)
  case (1 env fullRawText log)
  then show ?case by simp
next
  case (2 env e pages fullRawText log)
  then show ?case by simp
next
  case (3 env imageDataUrl pages fullRawText log)
  show ?case
  proof (cases "split_1 44 imageDataUrl")
    case None
    with 3 show ?thesis by simp
  next
    case (Some d)
    show ?thesis
    proof (cases "d = []")
      case True
      with 3 Some show ?thesis by simp
    next
      case False
      obtain x l1 where x: "extractTextFromImageData env (Some d) (lit ''image/jpeg'') log = (x, l1)"
        by (cases "extractTextFromImageData env (Some d) (lit ''image/jpeg'') log")
      from extract_log [OF x] obtain n1 where n1: "l1 = log @ n1" "\<forall>q \<in> set n1. is_ocr_request q"
        by (cases "l1 = log") auto
      show ?thesis
      proof (cases x)
        case (Inl ocrErr)
        with 3 Some False x have "\<exists>new. log' = l1 @ new \<and> (\<forall>q \<in> set new. is_ocr_request q)"
          by simp
        with n1 show ?thesis by (metis append_assoc set_append UnE)
      next
        case (Inr t)
        with 3 Some False x have "\<exists>new. log' = l1 @ new \<and> (\<forall>q \<in> set new. is_ocr_request q)"
          by simp
        with n1 show ?thesis by (metis append_assoc set_append UnE)
      qed
    qed
  qed
qed

lemma extract_blank:
  "blank_or_failing env \<Longrightarrow> extractTextFromImageData env d m log = (Inr t, log') \<Longrightarrow> t = []"
proof -
  assume b: "blank_or_failing env" and e: "extractTextFromImageData env d m log = (Inr t, log')"
  from b have "case generateContent env (length log) (OcrRequest m d) of
                 Inr (Some t) \<Rightarrow> trim t = [] | _ \<Rightarrow> True"
    by blast
  with e show ?thesis
    by (auto simp: extractTextFromImageData_def call_generateContent_def
             split: sum.splits option.splits)
qed

lemma ocr_pages_blank:
  "blank_or_failing env \<Longrightarrow> \<forall>p \<in> set pages. \<exists>u. p = PageRendered u \<Longrightarrow>
   \<forall>c \<in> set fullRawText. is_space c \<Longrightarrow>
   \<exists>t log'. ocr_pages env pages fullRawText log = (Inr t, log') \<and> (\<forall>c \<in> set t. is_space c)"
proof (induction pages arbitrary: fullRawText log)
  case Nil
  then show ?case by simp
next
  case (Cons p pages)
  from Cons.prems(2) obtain u where p: "p = PageRendered u" by auto
  from Cons.prems(2) have rest: "\<forall>p \<in> set pages. \<exists>u. p = PageRendered u" by simp
  have same: "\<exists>t log'. ocr_pages env pages fullRawText l = (Inr t, log') \<and> (\<forall>c \<in> set t. is_space c)" for l
    using Cons.IH [OF Cons.prems(1) rest Cons.prems(3)] .
  show ?case
  proof (cases "split_1 44 u")
    case None
    with p same show ?thesis by simp
  next
    case (Some d)
    show ?thesis
    proof (cases "d = []")
      case True
      with p Some same show ?thesis by simp
    next
      case False
      obtain x l1 where x: "extractTextFromImageData env (Some d) (lit ''image/jpeg'') log = (x, l1)"
        by (cases "extractTextFromImageData env (Some d) (lit ''image/jpeg'') log")
      show ?thesis
      proof (cases x)
        case (Inl ocrErr)
        with p Some False x same show ?thesis by simp
      next
        case (Inr t)
        with x Cons.prems(1) have t: "t = []" by (auto dest: extract_blank)
        have "\<forall>c \<in> set (fullRawText @ [10, 10]). is_space c"
          using Cons.prems(3) by (auto simp: is_space_def)
        from Cons.IH [OF Cons.prems(1) rest this]
        have "\<exists>t log'. ocr_pages env pages (fullRawText @ [10, 10]) l1 = (Inr t, log')
                \<and> (\<forall>c \<in> set t. is_space c)" .
        with p Some False x Inr t show ?thesis by simp
      qed
    qed
  qed
qed

lemma format_step_failed:
  "convertTextToMarkdown env rawText log = (Inl mdErr, log') \<Longrightarrow>
   format_step env kind rawText s log =
     (s\<lparr>isFormattingToMarkdown := True,
        fileProcessingError :=
          Some (lit ''Markdown Conversion Error ('' @ kind @ lit ''): ''
                @ or_default (message mdErr) (lit ''Could not format extracted text.'')
                @ lit ''. Raw text loaded.''),
        isFormattingToMarkdown := False\<rparr>, log')"
  by (simp add: format_step_def Let_def)

lemma format_step_done:
  "convertTextToMarkdown env rawText log = (Inr markdownText, log') \<Longrightarrow>
   format_step env kind rawText s log =
     (s\<lparr>isFormattingToMarkdown := True, inputText := markdownText,
        isFormattingToMarkdown := False\<rparr>, log')"
  by (simp add: format_step_def Let_def)

lemma handleFileUpload_image:
  "file_type file \<noteq> lit ''application/pdf'' \<Longrightarrow>
   toLowerCase (file_type file) \<in> set validImageTypes \<Longrightarrow>
   handleFileUpload env (Some file) s log = image_branch env s file (upload_begin s) log"
  by (simp add: handleFileUpload_def Let_def)

lemma image_branch_text:
  "readAsDataURL file = Inr (Some result) \<Longrightarrow> result \<noteq> [] \<Longrightarrow>
   extractTextFromImageData env (split_1 44 result) (file_type file) log = (Inr rawTextFromImage, log') \<Longrightarrow>
   image_branch env s0 file s log =
     (if trim rawTextFromImage \<noteq> []
      then format_step env (lit ''Image'') rawTextFromImage
             (s\<lparr>inputText := rawTextFromImage, isExtractingText := False\<rparr>) log'
      else (s\<lparr>inputText := rawTextFromImage, isExtractingText := False,
              fileProcessingError :=
                Some (lit ''No text content could be extracted from the image (OCR).'')\<rparr>, log'))"
  by (simp add: image_branch_def Let_def)

lemma ocr_pages_failed_page:
  "split_1 44 imageDataUrl = Some d \<Longrightarrow> d \<noteq> [] \<Longrightarrow>
   extractTextFromImageData env (Some d) (lit ''image/jpeg'') log = (Inl ocrErr, log') \<Longrightarrow>
   ocr_pages env (PageRendered imageDataUrl # pages) fullRawText log
     = ocr_pages env pages fullRawText log'"
  by simp

lemma ocr_pages_read_page:
  "split_1 44 imageDataUrl = Some d \<Longrightarrow> d \<noteq> [] \<Longrightarrow>
   extractTextFromImageData env (Some d) (lit ''image/jpeg'') log = (Inr textFromPage, log') \<Longrightarrow>
   ocr_pages env (PageRendered imageDataUrl # pages) fullRawText log
     = ocr_pages env pages (fullRawText @ textFromPage @ [10, 10]) log'"
  by simp

lemma pdf_branch_not_caught:
  assumes doc: "pdf_document file = Inr pages"
    and run: "ocr_pages env pages [] log = (Inr fullRawText, log')"
    and clear: "fileProcessingError s = None" "\<not> isFormattingToMarkdown s"
  shows "\<not> isExtractingText (fst (pdf_branch env file s log))
         \<and> \<not> isFormattingToMarkdown (fst (pdf_branch env file s log))
         \<and> (\<forall>err. fileProcessingError (fst (pdf_branch env file s log))
                     \<noteq> fileProcessingError (pdf_catch err s))
         \<and> (trim fullRawText \<noteq> [] \<longrightarrow>
               fileProcessingError (fst (pdf_branch env file s log)) = None
               \<or> inputText (fst (pdf_branch env file s log)) = trim fullRawText)"
proof (cases "trim fullRawText = []")
  case True
  then show ?thesis
    using clear by (simp add: pdf_branch_pages [OF doc run] pdf_catch_def lit_def) 
next
  case False
  obtain r l where md: "convertTextToMarkdown env (trim fullRawText) log' = (r, l)"
    by (cases "convertTextToMarkdown env (trim fullRawText) log'")
  show ?thesis
  proof (cases r)
    case (Inl mdErr)
    with md False show ?thesis
      by (simp add: pdf_branch_pages [OF doc run] format_step_failed pdf_catch_def lit_def)
  next
    case (Inr markdownText)
    with md False clear show ?thesis
      by (simp add: pdf_branch_pages [OF doc run] format_step_done pdf_catch_def)
  qed
qed

lemmas client_defs =
  extractTextFromImageData_def convertTextToMarkdown_def translateText_def
  ensureApiKeyIsConfigured_def call_generateContent_def rethrow_def
  trim_def is_space_def lit_def split_1_def

section \<open>Blank input and missing credentials\<close>

lemma ensure_configured:
  "API_KEY env = Some k \<Longrightarrow> trim k \<noteq> [] \<Longrightarrow> ensureApiKeyIsConfigured env = Inr ()"
  by (simp add: ensureApiKeyIsConfigured_def)

lemma ensure_unconfigured:
  "API_KEY env = None \<or> (API_KEY env = Some k \<and> trim k = []) \<Longrightarrow>
   ensureApiKeyIsConfigured env = Inl (Error api_key_message)"
  by (auto simp: ensureApiKeyIsConfigured_def)

text \<open>
  Claim C7.  With a configured credential (a string that is not blank), a raw text that
  is empty or blank makes \<open>convertTextToMarkdown\<close> return the empty string, and the list
  of issued requests is unchanged.  With a credential that is missing or blank, each of
  the three operations throws the configuration error, again without a request.  The
  credential test comes first, so the short cut is taken exactly when the operation
  passes it.
\<close>

theorem convertTextToMarkdown_blank_input:
  "(API_KEY env = Some k \<and> trim k \<noteq> [] \<and> trim rawText = [] \<longrightarrow>
      convertTextToMarkdown env rawText log = (Inr [], log))
   \<and> (API_KEY env = None \<or> (API_KEY env = Some k \<and> trim k = []) \<longrightarrow>
      extractTextFromImageData env base64ImageData mimeType log = (Inl (Error api_key_message), log)
      \<and> convertTextToMarkdown env rawText log = (Inl (Error api_key_message), log)
      \<and> translateText env text targetLanguageCode systemInstructionText log
          = (Inl (Error api_key_message), log))"
proof (intro conjI impI)
  assume "API_KEY env = Some k \<and> trim k \<noteq> [] \<and> trim rawText = []"
  then show "convertTextToMarkdown env rawText log = (Inr [], log)"
    by (simp add: convertTextToMarkdown_def ensure_configured)
next
  assume "API_KEY env = None \<or> (API_KEY env = Some k \<and> trim k = [])"
  then have e: "ensureApiKeyIsConfigured env = Inl (Error api_key_message)"
    by (rule ensure_unconfigured)
  show "extractTextFromImageData env base64ImageData mimeType log = (Inl (Error api_key_message), log)"
    by (simp add: extractTextFromImageData_def e)
  show "convertTextToMarkdown env rawText log = (Inl (Error api_key_message), log)"
    by (simp add: convertTextToMarkdown_def e)
  show "translateText env text targetLanguageCode systemInstructionText log
          = (Inl (Error api_key_message), log)"
    by (simp add: translateText_def e)
qed

text \<open>The theorem with a credential, with a blank one and without one.\<close>

theorem convertTextToMarkdown_blank_input_witness:
  "convertTextToMarkdown example_service (lit '' \<newline> '') [] = (Inr [], [])
   \<and> extractTextFromImageData (example_service\<lparr>API_KEY := Some (lit '' '')\<rparr>) (Some (lit ''AAAA'')) (lit ''image/png'') []
       = (Inl (Error api_key_message), [])
   \<and> convertTextToMarkdown (example_service\<lparr>API_KEY := None\<rparr>) (lit '' \<newline> '') []
       = (Inl (Error api_key_message), [])
   \<and> translateText (example_service\<lparr>API_KEY := None\<rparr>) (lit ''# Safety'') (lit ''en-US'') None []
       = (Inl (Error api_key_message), [])"
proof -
  have k: "API_KEY example_service = Some (lit ''key'') \<and> trim (lit ''key'') \<noteq> []
           \<and> trim (lit '' \<newline> '') = []"
    by (simp add: example_service_def trim_def lit_def is_space_def)
  have c1: "convertTextToMarkdown example_service (lit '' \<newline> '') [] = (Inr [], [])"
    using convertTextToMarkdown_blank_input [of example_service "lit ''key''" "lit '' \<newline> ''" "[]"] k
    by blast
  have b: "API_KEY (example_service\<lparr>API_KEY := Some (lit '' '')\<rparr>) = None
           \<or> (API_KEY (example_service\<lparr>API_KEY := Some (lit '' '')\<rparr>) = Some (lit '' '') \<and> trim (lit '' '') = [])"
    by (simp add: trim_def lit_def is_space_def)
  have c2: "extractTextFromImageData (example_service\<lparr>API_KEY := Some (lit '' '')\<rparr>) (Some (lit ''AAAA'')) (lit ''image/png'') []
       = (Inl (Error api_key_message), [])"
    using convertTextToMarkdown_blank_input [of "example_service\<lparr>API_KEY := Some (lit '' '')\<rparr>" "lit '' ''"] b
    by blast
  have n: "API_KEY (example_service\<lparr>API_KEY := None\<rparr>) = None
           \<or> (API_KEY (example_service\<lparr>API_KEY := None\<rparr>) = Some [] \<and> trim [] = [])"
    by simp
  have c3: "convertTextToMarkdown (example_service\<lparr>API_KEY := None\<rparr>) (lit '' \<newline> '') []
       = (Inl (Error api_key_message), [])"
    and c4: "translateText (example_service\<lparr>API_KEY := None\<rparr>) (lit ''# Safety'') (lit ''en-US'') None []
       = (Inl (Error api_key_message), [])"
    using convertTextToMarkdown_blank_input [of "example_service\<lparr>API_KEY := None\<rparr>" "[]"] n
    by blast+
  show ?thesis using c1 c2 c3 c4 by blast
qed

section \<open>A page whose OCR call fails\<close>

text \<open>
  Claim C3.  When the OCR call of a rendered page throws, the loop goes on with the
  remaining pages and the text accumulated so far, to which nothing was added.  For three
  rendered pages of which the first and the third are read and the second throws, the
  loop ends normally with the text of the first page, a blank line, the text of the third
  page and a blank line.  The handler then ends with both progress flags off and never
  with the message of its outer \<open>catch\<close>, and its result is fixed by that text alone: when
  the trimmed text is not empty it is handed to \<open>convertTextToMarkdown\<close>, and the handler
  ends with the returned Markdown in the input buffer and no message, or, when the
  conversion throws, with the trimmed text of the two pages in the input buffer and the
  conversion warning; when the trimmed text is empty it ends with the no-content message.
\<close>

theorem pdf_page_ocr_failure_is_skipped:
  "(split_1 44 imageDataUrl = Some d \<and> d \<noteq> []
    \<and> extractTextFromImageData env (Some d) (lit ''image/jpeg'') log = (Inl ocrErr, log') \<longrightarrow>
      ocr_pages env (PageRendered imageDataUrl # pages) fullRawText log
        = ocr_pages env pages fullRawText log')
   \<and> (split_1 44 u1 = Some d1 \<and> d1 \<noteq> [] \<and> split_1 44 u2 = Some d2 \<and> d2 \<noteq> []
      \<and> split_1 44 u3 = Some d3 \<and> d3 \<noteq> []
      \<and> extractTextFromImageData env (Some d1) (lit ''image/jpeg'') log = (Inr t1, log1)
      \<and> extractTextFromImageData env (Some d2) (lit ''image/jpeg'') log1 = (Inl ocrErr, log2)
      \<and> extractTextFromImageData env (Some d3) (lit ''image/jpeg'') log2 = (Inr t3, log3) \<longrightarrow>
      ocr_pages env [PageRendered u1, PageRendered u2, PageRendered u3] [] log
        = (Inr (t1 @ [10, 10] @ t3 @ [10, 10]), log3)
      \<and> (file_type file = lit ''application/pdf''
         \<and> pdf_document file = Inr [PageRendered u1, PageRendered u2, PageRendered u3] \<longrightarrow>
           \<not> isExtractingText (fst (handleFileUpload env (Some file) s log))
           \<and> \<not> isFormattingToMarkdown (fst (handleFileUpload env (Some file) s log))
           \<and> (\<forall>err. fileProcessingError (fst (handleFileUpload env (Some file) s log))
                       \<noteq> fileProcessingError (pdf_catch err (upload_begin s)))
           \<and> (trim (t1 @ [10, 10] @ t3 @ [10, 10]) \<noteq> []
              \<and> convertTextToMarkdown env (trim (t1 @ [10, 10] @ t3 @ [10, 10])) log3
                  = (Inr markdownText, log4) \<longrightarrow>
                 handleFileUpload env (Some file) s log
                   = ((upload_begin s)\<lparr>inputText := markdownText, isExtractingText := False,
                                        isFormattingToMarkdown := False\<rparr>, log4))
           \<and> (trim (t1 @ [10, 10] @ t3 @ [10, 10]) \<noteq> []
              \<and> convertTextToMarkdown env (trim (t1 @ [10, 10] @ t3 @ [10, 10])) log3
                  = (Inl mdErr, log4) \<longrightarrow>
                 handleFileUpload env (Some file) s log
                   = ((upload_begin s)\<lparr>inputText := trim (t1 @ [10, 10] @ t3 @ [10, 10]),
                        isExtractingText := False, isFormattingToMarkdown := False,
                        fileProcessingError :=
                          Some (lit ''Markdown Conversion Error (PDF): ''
                                @ or_default (message mdErr) (lit ''Could not format extracted text.'')
                                @ lit ''. Raw text loaded.'')\<rparr>, log4))
           \<and> (trim (t1 @ [10, 10] @ t3 @ [10, 10]) = [] \<longrightarrow>
                 handleFileUpload env (Some file) s log
                   = ((upload_begin s)\<lparr>fileProcessingError :=
                          Some (lit ''No text content could be extracted from the PDF (OCR).''),
                        isExtractingText := False\<rparr>, log3))))"
proof (intro conjI impI)
  assume "split_1 44 imageDataUrl = Some d \<and> d \<noteq> []
    \<and> extractTextFromImageData env (Some d) (lit ''image/jpeg'') log = (Inl ocrErr, log')"
  then show "ocr_pages env (PageRendered imageDataUrl # pages) fullRawText log
        = ocr_pages env pages fullRawText log'"
    by (simp add: ocr_pages_failed_page)
next
  assume h: "split_1 44 u1 = Some d1 \<and> d1 \<noteq> [] \<and> split_1 44 u2 = Some d2 \<and> d2 \<noteq> []
      \<and> split_1 44 u3 = Some d3 \<and> d3 \<noteq> []
      \<and> extractTextFromImageData env (Some d1) (lit ''image/jpeg'') log = (Inr t1, log1)
      \<and> extractTextFromImageData env (Some d2) (lit ''image/jpeg'') log1 = (Inl ocrErr, log2)
      \<and> extractTextFromImageData env (Some d3) (lit ''image/jpeg'') log2 = (Inr t3, log3)"
  then show run: "ocr_pages env [PageRendered u1, PageRendered u2, PageRendered u3] [] log
        = (Inr (t1 @ [10, 10] @ t3 @ [10, 10]), log3)"
    by (simp add: ocr_pages_failed_page ocr_pages_read_page del: ocr_pages.simps(3))
  assume f: "file_type file = lit ''application/pdf''
         \<and> pdf_document file = Inr [PageRendered u1, PageRendered u2, PageRendered u3]"
  then have doc: "pdf_document file = Inr [PageRendered u1, PageRendered u2, PageRendered u3]"
    and eq: "handleFileUpload env (Some file) s log = pdf_branch env file (upload_begin s) log"
    by (simp_all add: handleFileUpload_pdf)
  have clear: "fileProcessingError (upload_begin s) = None" "\<not> isFormattingToMarkdown (upload_begin s)"
    by (simp_all add: upload_begin_fields)
  note nc = pdf_branch_not_caught [OF doc run clear]
  note pb = pdf_branch_pages [OF doc run, of "upload_begin s"]
  from nc show "\<not> isExtractingText (fst (handleFileUpload env (Some file) s log))"
    unfolding eq by blast
  from nc show "\<not> isFormattingToMarkdown (fst (handleFileUpload env (Some file) s log))"
    unfolding eq by blast
  from nc show "\<forall>err. fileProcessingError (fst (handleFileUpload env (Some file) s log))
                       \<noteq> fileProcessingError (pdf_catch err (upload_begin s))"
    unfolding eq by blast
  {
    assume "trim (t1 @ [10, 10] @ t3 @ [10, 10]) \<noteq> []
              \<and> convertTextToMarkdown env (trim (t1 @ [10, 10] @ t3 @ [10, 10])) log3
                  = (Inr markdownText, log4)"
    then show "handleFileUpload env (Some file) s log
                   = ((upload_begin s)\<lparr>inputText := markdownText, isExtractingText := False,
                                        isFormattingToMarkdown := False\<rparr>, log4)"
      unfolding eq pb using clear by (simp add: format_step_done)
  }
  {
    assume "trim (t1 @ [10, 10] @ t3 @ [10, 10]) \<noteq> []
              \<and> convertTextToMarkdown env (trim (t1 @ [10, 10] @ t3 @ [10, 10])) log3
                  = (Inl mdErr, log4)"
    then show "handleFileUpload env (Some file) s log
                   = ((upload_begin s)\<lparr>inputText := trim (t1 @ [10, 10] @ t3 @ [10, 10]),
                        isExtractingText := False, isFormattingToMarkdown := False,
                        fileProcessingError :=
                          Some (lit ''Markdown Conversion Error (PDF): ''
                                @ or_default (message mdErr) (lit ''Could not format extracted text.'')
                                @ lit ''. Raw text loaded.'')\<rparr>, log4)"
      unfolding eq pb by (simp add: format_step_failed lit_def)
  }
  {
    assume "trim (t1 @ [10, 10] @ t3 @ [10, 10]) = []"
    then show "handleFileUpload env (Some file) s log
                   = ((upload_begin s)\<lparr>fileProcessingError :=
                          Some (lit ''No text content could be extracted from the PDF (OCR).''),
                        isExtractingText := False\<rparr>, log3)"
      unfolding eq pb by simp
  }
qed

text \<open>
  Three pages, the OCR call of the second one throwing: the input buffer ends as the text
  of the first and the third page, and the fourth request is the conversion of that text.
\<close>

theorem pdf_page_ocr_failure_is_skipped_witness:
  "ocr_pages second_call_fails_service [page_image ''AAAA'', page_image ''BBBB'', page_image ''CCCC''] [] []
     = (Inr (lit ''text AAAA\<newline>\<newline>text CCCC\<newline>\<newline>''),
        [OcrRequest (lit ''image/jpeg'') (Some (lit ''AAAA'')),
         OcrRequest (lit ''image/jpeg'') (Some (lit ''BBBB'')),
         OcrRequest (lit ''image/jpeg'') (Some (lit ''CCCC''))])
   \<and> ocr_pages second_call_fails_service [page_image ''BBBB'', page_image ''CCCC''] (lit ''text AAAA\<newline>\<newline>'')
        [OcrRequest (lit ''image/jpeg'') (Some (lit ''AAAA''))]
      = ocr_pages second_call_fails_service [page_image ''CCCC''] (lit ''text AAAA\<newline>\<newline>'')
        [OcrRequest (lit ''image/jpeg'') (Some (lit ''AAAA'')),
         OcrRequest (lit ''image/jpeg'') (Some (lit ''BBBB''))]
   \<and> handleFileUpload second_call_fails_service
        (Some (example_pdf [page_image ''AAAA'', page_image ''BBBB'', page_image ''CCCC''])) example_state []
      = ((upload_begin example_state)\<lparr>inputText := lit ''text AAAA\<newline>\<newline>text CCCC'',
            isExtractingText := False, isFormattingToMarkdown := False\<rparr>,
         [OcrRequest (lit ''image/jpeg'') (Some (lit ''AAAA'')),
          OcrRequest (lit ''image/jpeg'') (Some (lit ''BBBB'')),
          OcrRequest (lit ''image/jpeg'') (Some (lit ''CCCC'')),
          MarkdownRequest (lit ''text AAAA\<newline>\<newline>text CCCC'')])"
proof -
  define env where "env = second_call_fails_service"
  define u where "u = (\<lambda>d. lit ''data:image/jpeg;base64,'' @ lit d)"
  define f where "f = example_pdf [PageRendered (u ''AAAA''), PageRendered (u ''BBBB''), PageRendered (u ''CCCC'')]"
  define q where "q = (\<lambda>d. OcrRequest (lit ''image/jpeg'') (Some (lit d)))"
  have sp: "split_1 44 (u ''AAAA'') = Some (lit ''AAAA'')" "lit ''AAAA'' \<noteq> []"
    "split_1 44 (u ''BBBB'') = Some (lit ''BBBB'')" "lit ''BBBB'' \<noteq> []"
    "split_1 44 (u ''CCCC'') = Some (lit ''CCCC'')" "lit ''CCCC'' \<noteq> []"
    by (simp_all add: u_def split_1_def lit_def)
  have e1: "extractTextFromImageData env (Some (lit ''AAAA'')) (lit ''image/jpeg'') []
             = (Inr (lit ''text AAAA''), [q ''AAAA''])"
    by (simp add: env_def q_def second_call_fails_service_def client_defs)
  have e2: "extractTextFromImageData env (Some (lit ''BBBB'')) (lit ''image/jpeg'') [q ''AAAA'']
             = (Inl (Error (lit ''AI OCR service error: unavailable'')), [q ''AAAA'', q ''BBBB''])"
    by (simp add: env_def q_def second_call_fails_service_def client_defs)
  have e3: "extractTextFromImageData env (Some (lit ''CCCC'')) (lit ''image/jpeg'') [q ''AAAA'', q ''BBBB'']
             = (Inr (lit ''text CCCC''), [q ''AAAA'', q ''BBBB'', q ''CCCC''])"
    by (simp add: env_def q_def second_call_fails_service_def client_defs)
  have fl: "file_type f = lit ''application/pdf''"
    "pdf_document f = Inr [PageRendered (u ''AAAA''), PageRendered (u ''BBBB''), PageRendered (u ''CCCC'')]"
    by (simp_all add: f_def example_pdf_def)
  have acc: "lit ''text AAAA'' @ [10, 10] @ lit ''text CCCC'' @ [10, 10]
             = lit ''text AAAA\<newline>\<newline>text CCCC\<newline>\<newline>''"
    "lit ''text AAAA\<newline>\<newline>'' = [] @ lit ''text AAAA'' @ [10, 10]"
    by (simp_all add: lit_def)
  have tr: "trim (lit ''text AAAA'' @ [10, 10] @ lit ''text CCCC'' @ [10, 10]) = lit ''text AAAA\<newline>\<newline>text CCCC''"
    by (simp add: trim_def lit_def is_space_def)
  have ne: "trim (lit ''text AAAA'' @ [10, 10] @ lit ''text CCCC'' @ [10, 10]) \<noteq> []"
    unfolding tr by (simp add: lit_def)
  note inst = pdf_page_ocr_failure_is_skipped
    [where env = env and log = "[]"
       and ocrErr = "Error (lit ''AI OCR service error: unavailable'')"
       and ?u1.0 = "u ''AAAA''" and ?d1.0 = "lit ''AAAA''" and ?u2.0 = "u ''BBBB''" and ?d2.0 = "lit ''BBBB''"
       and ?u3.0 = "u ''CCCC''" and ?d3.0 = "lit ''CCCC''"
       and ?t1.0 = "lit ''text AAAA''" and ?log1.0 = "[q ''AAAA'']" and ?log2.0 = "[q ''AAAA'', q ''BBBB'']"
       and ?t3.0 = "lit ''text CCCC''" and ?log3.0 = "[q ''AAAA'', q ''BBBB'', q ''CCCC'']"
       and ?file = f and s = example_state]
  have c1: "ocr_pages env [PageRendered (u ''AAAA''), PageRendered (u ''BBBB''), PageRendered (u ''CCCC'')] [] []
             = (Inr (lit ''text AAAA'' @ [10, 10] @ lit ''text CCCC'' @ [10, 10]), [q ''AAAA'', q ''BBBB'', q ''CCCC''])"
    using inst sp e1 e2 e3 by blast
  have c2: "ocr_pages env (PageRendered (u ''BBBB'') # [PageRendered (u ''CCCC'')]) (lit ''text AAAA\<newline>\<newline>'') [q ''AAAA'']
             = ocr_pages env [PageRendered (u ''CCCC'')] (lit ''text AAAA\<newline>\<newline>'') [q ''AAAA'', q ''BBBB'']"
    using pdf_page_ocr_failure_is_skipped
      [where imageDataUrl = "u ''BBBB''" and d = "lit ''BBBB''" and env = env and log = "[q ''AAAA'']"
         and ocrErr = "Error (lit ''AI OCR service error: unavailable'')"
         and log' = "[q ''AAAA'', q ''BBBB'']" and pages = "[PageRendered (u ''CCCC'')]"
         and fullRawText = "lit ''text AAAA\<newline>\<newline>''"]
      sp e2 by blast
  have md: "convertTextToMarkdown env (trim (lit ''text AAAA'' @ [10, 10] @ lit ''text CCCC'' @ [10, 10]))
              [q ''AAAA'', q ''BBBB'', q ''CCCC'']
            = (Inr (lit ''text AAAA\<newline>\<newline>text CCCC''),
               [q ''AAAA'', q ''BBBB'', q ''CCCC'', MarkdownRequest (lit ''text AAAA\<newline>\<newline>text CCCC'')])"
    unfolding tr
    by (simp add: env_def second_call_fails_service_def client_defs cleanedText_def
          fenceRegex_match_def startsWith_def fence_def)
  have c3: "handleFileUpload env (Some f) example_state []
      = ((upload_begin example_state)\<lparr>inputText := lit ''text AAAA\<newline>\<newline>text CCCC'',
            isExtractingText := False, isFormattingToMarkdown := False\<rparr>,
         [q ''AAAA'', q ''BBBB'', q ''CCCC'', MarkdownRequest (lit ''text AAAA\<newline>\<newline>text CCCC'')])"
    using inst [where markdownText = "lit ''text AAAA\<newline>\<newline>text CCCC''"
                  and ?log4.0 = "[q ''AAAA'', q ''BBBB'', q ''CCCC'',
                                  MarkdownRequest (lit ''text AAAA\<newline>\<newline>text CCCC'')]"]
      sp e1 e2 e3 fl ne md
    by blast
  show ?thesis
    unfolding page_image_def
    apply (intro conjI)
    subgoal using c1 unfolding acc(1) env_def q_def u_def by assumption
    subgoal using c2 unfolding env_def q_def u_def by assumption
    subgoal using c3 unfolding env_def f_def q_def u_def by assumption
    done
qed

section \<open>A PDF without text\<close>

text \<open>
  Claim C4.  When the loop over the pages of a PDF ends normally and the accumulated text
  is empty after trimming, the handler ends with the no-content message in the
  file-processing slot and the extraction flag off, and every request issued is an OCR
  request: no reformatting and no translation request.  This is the case whenever all
  pages are rendered and every answer of the service is an error, no text or blank text.
\<close>

theorem pdf_without_text_stops_before_reformat:
  "(file_type file = lit ''application/pdf'' \<and> pdf_document file = Inr pages
    \<and> ocr_pages env pages [] log = (Inr fullRawText, log') \<and> trim fullRawText = [] \<longrightarrow>
      handleFileUpload env (Some file) s log
        = ((upload_begin s)\<lparr>fileProcessingError :=
                               Some (lit ''No text content could be extracted from the PDF (OCR).''),
                             isExtractingText := False\<rparr>, log')
      \<and> (\<exists>new. log' = log @ new \<and> (\<forall>q \<in> set new. is_ocr_request q)))
   \<and> (file_type file = lit ''application/pdf'' \<and> pdf_document file = Inr pages
      \<and> (\<forall>p \<in> set pages. \<exists>u. p = PageRendered u)
      \<and> (\<forall>n req. case generateContent env n req of Inr (Some t) \<Rightarrow> trim t = [] | _ \<Rightarrow> True) \<longrightarrow>
      fileProcessingError (fst (handleFileUpload env (Some file) s log))
        = Some (lit ''No text content could be extracted from the PDF (OCR).'')
      \<and> \<not> isExtractingText (fst (handleFileUpload env (Some file) s log))
      \<and> \<not> isFormattingToMarkdown (fst (handleFileUpload env (Some file) s log))
      \<and> (\<exists>new. snd (handleFileUpload env (Some file) s log) = log @ new
                \<and> (\<forall>q \<in> set new. is_ocr_request q)))"
proof -
  have first: "handleFileUpload env (Some file) s log
        = ((upload_begin s)\<lparr>fileProcessingError :=
                               Some (lit ''No text content could be extracted from the PDF (OCR).''),
                             isExtractingText := False\<rparr>, log')
      \<and> (\<exists>new. log' = log @ new \<and> (\<forall>q \<in> set new. is_ocr_request q))"
    if "file_type file = lit ''application/pdf''" "pdf_document file = Inr pages"
       "ocr_pages env pages [] log = (Inr fullRawText, log')" "trim fullRawText = []"
    for fullRawText log'
    using that by (simp add: handleFileUpload_pdf pdf_branch_pages ocr_pages_log)
  have second: "fileProcessingError (fst (handleFileUpload env (Some file) s log))
        = Some (lit ''No text content could be extracted from the PDF (OCR).'')
      \<and> \<not> isExtractingText (fst (handleFileUpload env (Some file) s log))
      \<and> \<not> isFormattingToMarkdown (fst (handleFileUpload env (Some file) s log))
      \<and> (\<exists>new. snd (handleFileUpload env (Some file) s log) = log @ new
                \<and> (\<forall>q \<in> set new. is_ocr_request q))"
    if pdf: "file_type file = lit ''application/pdf''" "pdf_document file = Inr pages"
      and rendered: "\<forall>p \<in> set pages. \<exists>u. p = PageRendered u"
      and blank: "\<forall>n req. case generateContent env n req of Inr (Some t) \<Rightarrow> trim t = [] | _ \<Rightarrow> True"
  proof -
    have "\<forall>c \<in> set ([] :: jsstring). is_space c" by simp
    from ocr_pages_blank [OF blank rendered this]
    obtain t l where run: "ocr_pages env pages [] log = (Inr t, l)" and t: "\<forall>c \<in> set t. is_space c"
      by blast
    from t have "trim t = []" by (simp add: trim_Nil_iff)
    from first [OF pdf run this] show ?thesis by (simp add: upload_begin_fields)
  qed
  from first second show ?thesis by blast
qed

text \<open>Two pages: the first OCR call throws, the second answers with a blank.\<close>

theorem pdf_without_text_stops_before_reformat_witness:
  "handleFileUpload blank_service (Some (example_pdf [page_image ''AAAA'', page_image ''BBBB''])) example_state []
     = ((upload_begin example_state)\<lparr>fileProcessingError :=
            Some (lit ''No text content could be extracted from the PDF (OCR).''),
          isExtractingText := False\<rparr>,
        [OcrRequest (lit ''image/jpeg'') (Some (lit ''AAAA'')),
         OcrRequest (lit ''image/jpeg'') (Some (lit ''BBBB''))])
   \<and> fileProcessingError (fst (handleFileUpload blank_service
         (Some (example_pdf [page_image ''AAAA'', page_image ''BBBB''])) example_state []))
       = Some (lit ''No text content could be extracted from the PDF (OCR).'')"
proof -
  define f where "f = example_pdf [page_image ''AAAA'', page_image ''BBBB'']"
  define log' where "log' = [OcrRequest (lit ''image/jpeg'') (Some (lit ''AAAA'')),
                           OcrRequest (lit ''image/jpeg'') (Some (lit ''BBBB''))]"
  have pdf: "file_type f = lit ''application/pdf''"
    and doc: "pdf_document f = Inr [page_image ''AAAA'', page_image ''BBBB'']"
    by (simp_all add: f_def example_pdf_def)
  have run: "ocr_pages blank_service [page_image ''AAAA'', page_image ''BBBB''] [] [] = (Inr [10, 10], log')"
    by (simp add: page_image_def blank_service_def log'_def client_defs)
  have blank: "trim [10, 10] = []" by (simp add: trim_def is_space_def)
  have rendered: "\<forall>p \<in> set [page_image ''AAAA'', page_image ''BBBB'']. \<exists>u. p = PageRendered u"
    by (simp add: page_image_def)
  have answers: "\<forall>n req. case generateContent blank_service n req of
                   Inr (Some t) \<Rightarrow> trim t = [] | _ \<Rightarrow> True"
    by (simp add: blank_service_def trim_def is_space_def lit_def)
  note inst = pdf_without_text_stops_before_reformat
    [of f "[page_image ''AAAA'', page_image ''BBBB'']" blank_service "[]" "[10, 10]" log' example_state]
  have c1: "handleFileUpload blank_service (Some f) example_state []
     = ((upload_begin example_state)\<lparr>fileProcessingError :=
            Some (lit ''No text content could be extracted from the PDF (OCR).''),
          isExtractingText := False\<rparr>, log')"
    using inst pdf doc run blank by blast
  have c2: "fileProcessingError (fst (handleFileUpload blank_service (Some f) example_state []))
       = Some (lit ''No text content could be extracted from the PDF (OCR).'')"
    using inst pdf doc rendered answers by blast
  show ?thesis using c1 c2 unfolding f_def log'_def by blast
qed

section \<open>Reformatting after OCR\<close>

text \<open>
  Claim C5.  For a PDF whose accumulated text is not blank, and for an image whose OCR
  text is not blank: when \<open>convertTextToMarkdown\<close> throws, the input buffer ends as the raw
  text (trimmed, for a PDF), the file-processing slot holds the conversion warning built
  from the message of the error, and both progress flags are off; when it returns, the
  input buffer ends as the returned Markdown and the file-processing slot is empty.
\<close>

theorem reformat_failure_keeps_raw_text:
  "(file_type file = lit ''application/pdf'' \<and> pdf_document file = Inr pages
    \<and> ocr_pages env pages [] log = (Inr fullRawText, log1) \<and> trim fullRawText \<noteq> []
    \<and> convertTextToMarkdown env (trim fullRawText) log1 = (Inl mdErr, log2) \<longrightarrow>
      inputText (fst (handleFileUpload env (Some file) s log)) = trim fullRawText
      \<and> fileProcessingError (fst (handleFileUpload env (Some file) s log))
          = Some (lit ''Markdown Conversion Error (PDF): ''
                  @ or_default (message mdErr) (lit ''Could not format extracted text.'')
                  @ lit ''. Raw text loaded.'')
      \<and> \<not> isExtractingText (fst (handleFileUpload env (Some file) s log))
      \<and> \<not> isFormattingToMarkdown (fst (handleFileUpload env (Some file) s log)))
   \<and> (file_type file = lit ''application/pdf'' \<and> pdf_document file = Inr pages
      \<and> ocr_pages env pages [] log = (Inr fullRawText, log1) \<and> trim fullRawText \<noteq> []
      \<and> convertTextToMarkdown env (trim fullRawText) log1 = (Inr markdownText, log2) \<longrightarrow>
      inputText (fst (handleFileUpload env (Some file) s log)) = markdownText
      \<and> fileProcessingError (fst (handleFileUpload env (Some file) s log)) = None
      \<and> \<not> isExtractingText (fst (handleFileUpload env (Some file) s log))
      \<and> \<not> isFormattingToMarkdown (fst (handleFileUpload env (Some file) s log)))
   \<and> (file_type file \<noteq> lit ''application/pdf'' \<and> toLowerCase (file_type file) \<in> set validImageTypes
      \<and> readAsDataURL file = Inr (Some result) \<and> result \<noteq> []
      \<and> extractTextFromImageData env (split_1 44 result) (file_type file) log = (Inr rawTextFromImage, log1)
      \<and> trim rawTextFromImage \<noteq> []
      \<and> convertTextToMarkdown env rawTextFromImage log1 = (Inl mdErr, log2) \<longrightarrow>
      inputText (fst (handleFileUpload env (Some file) s log)) = rawTextFromImage
      \<and> fileProcessingError (fst (handleFileUpload env (Some file) s log))
          = Some (lit ''Markdown Conversion Error (Image): ''
                  @ or_default (message mdErr) (lit ''Could not format extracted text.'')
                  @ lit ''. Raw text loaded.'')
      \<and> \<not> isExtractingText (fst (handleFileUpload env (Some file) s log))
      \<and> \<not> isFormattingToMarkdown (fst (handleFileUpload env (Some file) s log)))
   \<and> (file_type file \<noteq> lit ''application/pdf'' \<and> toLowerCase (file_type file) \<in> set validImageTypes
      \<and> readAsDataURL file = Inr (Some result) \<and> result \<noteq> []
      \<and> extractTextFromImageData env (split_1 44 result) (file_type file) log = (Inr rawTextFromImage, log1)
      \<and> trim rawTextFromImage \<noteq> []
      \<and> convertTextToMarkdown env rawTextFromImage log1 = (Inr markdownText, log2) \<longrightarrow>
      inputText (fst (handleFileUpload env (Some file) s log)) = markdownText
      \<and> fileProcessingError (fst (handleFileUpload env (Some file) s log)) = None
      \<and> \<not> isExtractingText (fst (handleFileUpload env (Some file) s log))
      \<and> \<not> isFormattingToMarkdown (fst (handleFileUpload env (Some file) s log)))"
proof (intro conjI impI)
  assume h: "file_type file = lit ''application/pdf'' \<and> pdf_document file = Inr pages
    \<and> ocr_pages env pages [] log = (Inr fullRawText, log1) \<and> trim fullRawText \<noteq> []
    \<and> convertTextToMarkdown env (trim fullRawText) log1 = (Inl mdErr, log2)"
  then have r: "handleFileUpload env (Some file) s log =
      format_step env (lit ''PDF'') (trim fullRawText)
        ((upload_begin s)\<lparr>inputText := trim fullRawText, isExtractingText := False\<rparr>) log1"
    by (simp add: handleFileUpload_pdf pdf_branch_pages)
  from h have f: "convertTextToMarkdown env (trim fullRawText) log1 = (Inl mdErr, log2)" by simp
  show "inputText (fst (handleFileUpload env (Some file) s log)) = trim fullRawText"
    unfolding r format_step_failed [OF f] by simp
  show "fileProcessingError (fst (handleFileUpload env (Some file) s log))
          = Some (lit ''Markdown Conversion Error (PDF): ''
                  @ or_default (message mdErr) (lit ''Could not format extracted text.'')
                  @ lit ''. Raw text loaded.'')"
    unfolding r format_step_failed [OF f] by (simp add: lit_def)
  show "\<not> isExtractingText (fst (handleFileUpload env (Some file) s log))"
    unfolding r format_step_failed [OF f] by simp
  show "\<not> isFormattingToMarkdown (fst (handleFileUpload env (Some file) s log))"
    unfolding r format_step_failed [OF f] by simp
next
  assume h: "file_type file = lit ''application/pdf'' \<and> pdf_document file = Inr pages
    \<and> ocr_pages env pages [] log = (Inr fullRawText, log1) \<and> trim fullRawText \<noteq> []
    \<and> convertTextToMarkdown env (trim fullRawText) log1 = (Inr markdownText, log2)"
  then have r: "handleFileUpload env (Some file) s log =
      format_step env (lit ''PDF'') (trim fullRawText)
        ((upload_begin s)\<lparr>inputText := trim fullRawText, isExtractingText := False\<rparr>) log1"
    by (simp add: handleFileUpload_pdf pdf_branch_pages)
  from h have f: "convertTextToMarkdown env (trim fullRawText) log1 = (Inr markdownText, log2)" by simp
  show "inputText (fst (handleFileUpload env (Some file) s log)) = markdownText"
    unfolding r format_step_done [OF f] by simp
  show "fileProcessingError (fst (handleFileUpload env (Some file) s log)) = None"
    unfolding r format_step_done [OF f] by (simp add: upload_begin_fields)
  show "\<not> isExtractingText (fst (handleFileUpload env (Some file) s log))"
    unfolding r format_step_done [OF f] by simp
  show "\<not> isFormattingToMarkdown (fst (handleFileUpload env (Some file) s log))"
    unfolding r format_step_done [OF f] by simp
next
  assume h: "file_type file \<noteq> lit ''application/pdf'' \<and> toLowerCase (file_type file) \<in> set validImageTypes
      \<and> readAsDataURL file = Inr (Some result) \<and> result \<noteq> []
      \<and> extractTextFromImageData env (split_1 44 result) (file_type file) log = (Inr rawTextFromImage, log1)
      \<and> trim rawTextFromImage \<noteq> []
      \<and> convertTextToMarkdown env rawTextFromImage log1 = (Inl mdErr, log2)"
  then have r: "handleFileUpload env (Some file) s log =
      format_step env (lit ''Image'') rawTextFromImage
        ((upload_begin s)\<lparr>inputText := rawTextFromImage, isExtractingText := False\<rparr>) log1"
    by (simp add: handleFileUpload_image image_branch_text)
  from h have f: "convertTextToMarkdown env rawTextFromImage log1 = (Inl mdErr, log2)" by simp
  show "inputText (fst (handleFileUpload env (Some file) s log)) = rawTextFromImage"
    unfolding r format_step_failed [OF f] by simp
  show "fileProcessingError (fst (handleFileUpload env (Some file) s log))
          = Some (lit ''Markdown Conversion Error (Image): ''
                  @ or_default (message mdErr) (lit ''Could not format extracted text.'')
                  @ lit ''. Raw text loaded.'')"
    unfolding r format_step_failed [OF f] by (simp add: lit_def)
  show "\<not> isExtractingText (fst (handleFileUpload env (Some file) s log))"
    unfolding r format_step_failed [OF f] by simp
  show "\<not> isFormattingToMarkdown (fst (handleFileUpload env (Some file) s log))"
    unfolding r format_step_failed [OF f] by simp
next
  assume h: "file_type file \<noteq> lit ''application/pdf'' \<and> toLowerCase (file_type file) \<in> set validImageTypes
      \<and> readAsDataURL file = Inr (Some result) \<and> result \<noteq> []
      \<and> extractTextFromImageData env (split_1 44 result) (file_type file) log = (Inr rawTextFromImage, log1)
      \<and> trim rawTextFromImage \<noteq> []
      \<and> convertTextToMarkdown env rawTextFromImage log1 = (Inr markdownText, log2)"
  then have r: "handleFileUpload env (Some file) s log =
      format_step env (lit ''Image'') rawTextFromImage
        ((upload_begin s)\<lparr>inputText := rawTextFromImage, isExtractingText := False\<rparr>) log1"
    by (simp add: handleFileUpload_image image_branch_text)
  from h have f: "convertTextToMarkdown env rawTextFromImage log1 = (Inr markdownText, log2)" by simp
  show "inputText (fst (handleFileUpload env (Some file) s log)) = markdownText"
    unfolding r format_step_done [OF f] by simp
  show "fileProcessingError (fst (handleFileUpload env (Some file) s log)) = None"
    unfolding r format_step_done [OF f] by (simp add: upload_begin_fields)
  show "\<not> isExtractingText (fst (handleFileUpload env (Some file) s log))"
    unfolding r format_step_done [OF f] by simp
  show "\<not> isFormattingToMarkdown (fst (handleFileUpload env (Some file) s log))"
    unfolding r format_step_done [OF f] by simp
qed

text \<open>A PDF and an image, each with a service that fails to reformat and one that does not.\<close>

theorem reformat_failure_keeps_raw_text_witness:
  "inputText (fst (handleFileUpload formatting_fails_service (Some (example_pdf [page_image ''AAAA'']))
                     example_state [])) = lit ''Wear a helmet''
   \<and> fileProcessingError (fst (handleFileUpload formatting_fails_service
                     (Some (example_pdf [page_image ''AAAA''])) example_state []))
       = Some (lit ''Markdown Conversion Error (PDF): AI Markdown conversion service error: overloaded. Raw text loaded.'')
   \<and> inputText (fst (handleFileUpload example_service (Some (example_pdf [page_image ''AAAA'']))
                     example_state [])) = lit ''# Wear a helmet''
   \<and> inputText (fst (handleFileUpload formatting_fails_service (Some (example_image ''image/png''))
                     example_state [])) = lit ''Wear a helmet''
   \<and> inputText (fst (handleFileUpload example_service (Some (example_image ''image/png''))
                     example_state [])) = lit ''# Wear a helmet''"
proof -
  define pdf where "pdf = example_pdf [page_image ''AAAA'']"
  define img where "img = example_image ''image/png''"
  define ocr1 where "ocr1 = [OcrRequest (lit ''image/jpeg'') (Some (lit ''AAAA''))]"
  define ocr2 where "ocr2 = [OcrRequest (lit ''image/png'') (Some (lit ''CCCC''))]"
  define raw where "raw = lit ''Wear a helmet''"
  define full where "full = lit ''Wear a helmet'' @ [10, 10]"
  have pdf: "file_type pdf = lit ''application/pdf''" "pdf_document pdf = Inr [page_image ''AAAA'']"
    by (simp_all add: pdf_def example_pdf_def)
  have img: "file_type img \<noteq> lit ''application/pdf''"
    "toLowerCase (file_type img) \<in> set validImageTypes"
    "readAsDataURL img = Inr (Some (lit ''data:image/png;base64,CCCC''))"
    "lit ''data:image/png;base64,CCCC'' \<noteq> []"
    by (simp_all add: img_def example_image_def lit_def toLowerCase_def validImageTypes_def)
  have trim_full: "trim full = raw" by (simp add: full_def raw_def trim_def lit_def is_space_def)
  have ne: "trim full \<noteq> []" "trim raw \<noteq> []"
    by (simp_all add: full_def raw_def trim_def lit_def is_space_def)
  have run_f: "ocr_pages formatting_fails_service [page_image ''AAAA''] [] [] = (Inr full, ocr1)"
    by (simp add: full_def ocr1_def page_image_def formatting_fails_service_def client_defs)
  have run_e: "ocr_pages example_service [page_image ''AAAA''] [] [] = (Inr full, ocr1)"
    by (simp add: full_def ocr1_def page_image_def example_service_def client_defs)
  have ocr_f: "extractTextFromImageData formatting_fails_service
                 (split_1 44 (lit ''data:image/png;base64,CCCC'')) (file_type img) [] = (Inr raw, ocr2)"
    by (simp add: raw_def ocr2_def img_def example_image_def formatting_fails_service_def client_defs)
  have ocr_e: "extractTextFromImageData example_service
                 (split_1 44 (lit ''data:image/png;base64,CCCC'')) (file_type img) [] = (Inr raw, ocr2)"
    by (simp add: raw_def ocr2_def img_def example_image_def example_service_def client_defs)
  have md_f: "convertTextToMarkdown formatting_fails_service raw l
                = (Inl (Error (lit ''AI Markdown conversion service error: overloaded'')), l @ [MarkdownRequest raw])" for l
    by (simp add: raw_def formatting_fails_service_def client_defs)
  have md_e: "convertTextToMarkdown example_service raw l
                = (Inr (lit ''# Wear a helmet''), l @ [MarkdownRequest raw])" for l
    by (simp add: raw_def example_service_def client_defs cleanedText_def fenceRegex_match_def
          startsWith_def fence_def opt_newline_def closing_ok_def is_word_def)
  have msg: "lit ''Markdown Conversion Error (PDF): ''
              @ or_default (message (Error (lit ''AI Markdown conversion service error: overloaded'')))
                  (lit ''Could not format extracted text.'')
              @ lit ''. Raw text loaded.''
             = lit ''Markdown Conversion Error (PDF): AI Markdown conversion service error: overloaded. Raw text loaded.''"
    by (simp add: or_default_def lit_def)
  have c1: "inputText (fst (handleFileUpload formatting_fails_service (Some pdf) example_state [])) = trim full"
    and c2: "fileProcessingError (fst (handleFileUpload formatting_fails_service (Some pdf) example_state []))
       = Some (lit ''Markdown Conversion Error (PDF): ''
              @ or_default (message (Error (lit ''AI Markdown conversion service error: overloaded'')))
                  (lit ''Could not format extracted text.'')
              @ lit ''. Raw text loaded.'')"
    using reformat_failure_keeps_raw_text
      [of pdf "[page_image ''AAAA'']" formatting_fails_service "[]" full ocr1
          "Error (lit ''AI Markdown conversion service error: overloaded'')"
          "ocr1 @ [MarkdownRequest raw]" example_state]
      pdf run_f ne md_f [of ocr1] trim_full
    by simp_all
  have c3: "inputText (fst (handleFileUpload example_service (Some pdf) example_state [])) = lit ''# Wear a helmet''"
    using reformat_failure_keeps_raw_text
      [of pdf "[page_image ''AAAA'']" example_service "[]" full ocr1 _
          "ocr1 @ [MarkdownRequest raw]" example_state "lit ''# Wear a helmet''"]
      pdf run_e ne md_e [of ocr1] trim_full
    by simp
  have c4: "inputText (fst (handleFileUpload formatting_fails_service (Some img) example_state [])) = raw"
    using reformat_failure_keeps_raw_text
      [of img _ formatting_fails_service "[]" _ ocr2
          "Error (lit ''AI Markdown conversion service error: overloaded'')"
          "ocr2 @ [MarkdownRequest raw]" example_state _ "lit ''data:image/png;base64,CCCC''" raw]
      img ocr_f ne md_f [of ocr2]
    by simp
  have c5: "inputText (fst (handleFileUpload example_service (Some img) example_state [])) = lit ''# Wear a helmet''"
    using reformat_failure_keeps_raw_text
      [of img _ example_service "[]" _ ocr2 _
          "ocr2 @ [MarkdownRequest raw]" example_state "lit ''# Wear a helmet''"
          "lit ''data:image/png;base64,CCCC''" raw]
      img ocr_e ne md_e [of ocr2]
    by simp
  show ?thesis
    using c1 c2 c3 c4 c5 unfolding pdf_def img_def trim_full msg raw_def by blast
qed

section \<open>Dispatch on the declared type\<close>

lemma toLowerCase_image_not_pdf:
  "toLowerCase t \<in> set validImageTypes \<Longrightarrow> t \<noteq> lit ''application/pdf''"
  by (auto simp: validImageTypes_def toLowerCase_def lit_def)

lemma toLowerCase_other:
  "toLowerCase t \<notin> {lit ''application/pdf'', lit ''image/jpeg'', lit ''image/png'',
                      lit ''image/webp'', lit ''image/jpg''} \<Longrightarrow>
   t \<noteq> lit ''application/pdf'' \<and> toLowerCase t \<notin> set validImageTypes"
  by (auto simp: validImageTypes_def toLowerCase_def lit_def)

lemma handleFileUpload_unsupported:
  "file_type file \<noteq> lit ''application/pdf'' \<Longrightarrow>
   toLowerCase (file_type file) \<notin> set validImageTypes \<Longrightarrow>
   handleFileUpload env (Some file) s log =
     ((upload_begin s)\<lparr>fileProcessingError := Some (unsupported_message file),
                         isExtractingText := False\<rparr>, log)"
  by (simp add: handleFileUpload_def Let_def)

text \<open>
  Claim C6, as amended.  A file whose declared type is \<open>application/pdf\<close>, written so, is
  handled by the PDF branch.  A file whose declared type is, in any letter case, one of
  \<open>image/jpeg\<close>, \<open>image/png\<close>, \<open>image/webp\<close> and \<open>image/jpg\<close> is handled by the image
  branch.  A file whose declared type is, in every letter case, none of these five is
  rejected: the handler ends with a message that holds the name and the declared type of
  the file, and the list of issued requests is unchanged.
\<close>

theorem file_type_dispatch:
  "(file_type file = lit ''application/pdf'' \<longrightarrow>
      handleFileUpload env (Some file) s log = pdf_branch env file (upload_begin s) log)
   \<and> (toLowerCase (file_type file) \<in> {lit ''image/jpeg'', lit ''image/png'', lit ''image/webp'',
                                        lit ''image/jpg''} \<longrightarrow>
      handleFileUpload env (Some file) s log = image_branch env s file (upload_begin s) log)
   \<and> (toLowerCase (file_type file) \<notin> {lit ''application/pdf'', lit ''image/jpeg'', lit ''image/png'',
                                        lit ''image/webp'', lit ''image/jpg''} \<longrightarrow>
      handleFileUpload env (Some file) s log =
        ((upload_begin s)\<lparr>fileProcessingError :=
             Some (lit ''Unsupported file type: '' @ file_name file @ lit '' ('' @ file_type file
                   @ lit ''). Please upload a PDF, JPG, PNG, or WEBP file.''),
           isExtractingText := False\<rparr>, log))"
proof (intro conjI impI)
  assume "file_type file = lit ''application/pdf''"
  then show "handleFileUpload env (Some file) s log = pdf_branch env file (upload_begin s) log"
    by (rule handleFileUpload_pdf)
next
  assume "toLowerCase (file_type file) \<in> {lit ''image/jpeg'', lit ''image/png'', lit ''image/webp'',
                                            lit ''image/jpg''}"
  then have img: "toLowerCase (file_type file) \<in> set validImageTypes"
    by (simp add: validImageTypes_def)
  then have "file_type file \<noteq> lit ''application/pdf''" by (rule toLowerCase_image_not_pdf)
  then show "handleFileUpload env (Some file) s log = image_branch env s file (upload_begin s) log"
    using img by (rule handleFileUpload_image)
next
  assume "toLowerCase (file_type file) \<notin> {lit ''application/pdf'', lit ''image/jpeg'', lit ''image/png'',
                                            lit ''image/webp'', lit ''image/jpg''}"
  then have "file_type file \<noteq> lit ''application/pdf'' \<and> toLowerCase (file_type file) \<notin> set validImageTypes"
    by (rule toLowerCase_other)
  then show "handleFileUpload env (Some file) s log =
        ((upload_begin s)\<lparr>fileProcessingError :=
             Some (lit ''Unsupported file type: '' @ file_name file @ lit '' ('' @ file_type file
                   @ lit ''). Please upload a PDF, JPG, PNG, or WEBP file.''),
           isExtractingText := False\<rparr>, log)"
    by (simp add: handleFileUpload_unsupported unsupported_message_def)
qed

text \<open>A PDF, an image declared in upper case, and a GIF.\<close>

theorem file_type_dispatch_witness:
  "handleFileUpload example_service (Some (example_pdf [])) example_state []
     = pdf_branch example_service (example_pdf []) (upload_begin example_state) []
   \<and> handleFileUpload example_service (Some (example_image ''IMAGE/PNG'')) example_state []
     = image_branch example_service example_state (example_image ''IMAGE/PNG'') (upload_begin example_state) []
   \<and> handleFileUpload example_service (Some (example_image ''image/gif'')) example_state []
     = ((upload_begin example_state)\<lparr>fileProcessingError :=
            Some (lit ''Unsupported file type: tbm.scan (image/gif). Please upload a PDF, JPG, PNG, or WEBP file.''),
          isExtractingText := False\<rparr>, [])"
proof -
  have p: "file_type (example_pdf []) = lit ''application/pdf''" by (simp add: example_pdf_def)
  have c1: "handleFileUpload example_service (Some (example_pdf [])) example_state []
     = pdf_branch example_service (example_pdf []) (upload_begin example_state) []"
    using file_type_dispatch [where ?file = "example_pdf []"] p by blast
  have i: "toLowerCase (file_type (example_image ''IMAGE/PNG''))
             \<in> {lit ''image/jpeg'', lit ''image/png'', lit ''image/webp'', lit ''image/jpg''}"
    by (simp add: example_image_def toLowerCase_def lit_def)
  have c2: "handleFileUpload example_service (Some (example_image ''IMAGE/PNG'')) example_state []
     = image_branch example_service example_state (example_image ''IMAGE/PNG'') (upload_begin example_state) []"
    using file_type_dispatch [where ?file = "example_image ''IMAGE/PNG''"] i by blast
  have g: "toLowerCase (file_type (example_image ''image/gif''))
             \<notin> {lit ''application/pdf'', lit ''image/jpeg'', lit ''image/png'', lit ''image/webp'',
                  lit ''image/jpg''}"
    by (simp add: example_image_def toLowerCase_def lit_def)
  have m: "lit ''Unsupported file type: '' @ file_name (example_image ''image/gif'') @ lit '' (''
             @ file_type (example_image ''image/gif'')
             @ lit ''). Please upload a PDF, JPG, PNG, or WEBP file.''
           = lit ''Unsupported file type: tbm.scan (image/gif). Please upload a PDF, JPG, PNG, or WEBP file.''"
    by (simp add: example_image_def lit_def)
  have c3: "handleFileUpload example_service (Some (example_image ''image/gif'')) example_state []
     = ((upload_begin example_state)\<lparr>fileProcessingError :=
            Some (lit ''Unsupported file type: '' @ file_name (example_image ''image/gif'') @ lit '' (''
                  @ file_type (example_image ''image/gif'')
                  @ lit ''). Please upload a PDF, JPG, PNG, or WEBP file.''),
          isExtractingText := False\<rparr>, [])"
    using file_type_dispatch [where ?file = "example_image ''image/gif''"] g by blast
  show ?thesis using c1 c2 c3 unfolding m by blast
qed

text \<open>
  Claim C6 as stated fails: \<open>image/jpg\<close> is not one of the four types it lists, and a file
  declared so is read, sent to OCR and reformatted, with no message.
\<close>

theorem image_jpg_is_accepted:
  "lit ''image/jpg'' \<notin> {lit ''application/pdf'', lit ''image/jpeg'', lit ''image/png'', lit ''image/webp''}
   \<and> fileProcessingError (fst (handleFileUpload example_service (Some (example_image ''image/jpg''))
         example_state [])) = None
   \<and> snd (handleFileUpload example_service (Some (example_image ''image/jpg'')) example_state [])
       = [OcrRequest (lit ''image/jpg'') (Some (lit ''CCCC'')), MarkdownRequest (lit ''Wear a helmet'')]"
  by (simp add: handleFileUpload_def image_branch_def format_step_def upload_begin_def cancel_def
        validImageTypes_def toLowerCase_def example_state_def example_image_def
        example_service_def client_defs Let_def
        cleanedText_def fenceRegex_match_def startsWith_def fence_def opt_newline_def
        closing_ok_def is_word_def)

text \<open>
  The PDF type is compared as it is written, unlike the image types: a file declared as
  \<open>APPLICATION/PDF\<close> is rejected.
\<close>

lemma upper_case_pdf_is_rejected:
  "handleFileUpload example_service
     (Some ((example_pdf [page_image ''AAAA''])\<lparr>file_type := lit ''APPLICATION/PDF''\<rparr>)) example_state []
   = ((upload_begin example_state)\<lparr>fileProcessingError :=
          Some (lit ''Unsupported file type: tbm.pdf (APPLICATION/PDF). Please upload a PDF, JPG, PNG, or WEBP file.''),
        isExtractingText := False\<rparr>, [])"
  by (simp add: handleFileUpload_def unsupported_message_def validImageTypes_def toLowerCase_def
        example_pdf_def lit_def Let_def)

section \<open>The type image/jpg\<close>

lemma format_step_message:
  "fileProcessingError s = None \<Longrightarrow>
   fileProcessingError (fst (format_step env kind rawText s log)) = None
   \<or> (\<exists>m. fileProcessingError (fst (format_step env kind rawText s log)) = Some (77 # m))"
  by (auto simp: format_step_def Let_def lit_def split: sum.splits prod.splits)

lemma image_branch_cases:
  "(\<exists>err. image_branch env s0 file s log = (image_catch s0 err s, log))
   \<or> (\<exists>m l. image_branch env s0 file s log
           = (s\<lparr>fileProcessingError := Some (lit ''Image OCR Error: '' @ m), isExtractingText := False\<rparr>, l))
   \<or> (\<exists>raw l. image_branch env s0 file s log
           = format_step env (lit ''Image'') raw (s\<lparr>inputText := raw, isExtractingText := False\<rparr>) l)
   \<or> (\<exists>raw l. image_branch env s0 file s log
           = (s\<lparr>inputText := raw, isExtractingText := False,
                fileProcessingError := Some (lit ''No text content could be extracted from the image (OCR).'')\<rparr>, l))"
  by (simp add: image_branch_def Let_def split: sum.splits option.splits prod.splits) blast

lemma image_branch_message:
  assumes clear: "fileProcessingError s = None"
  shows "fileProcessingError (fst (image_branch env s0 file s log)) = None
         \<or> (\<exists>m. fileProcessingError (fst (image_branch env s0 file s log)) = Some (73 # m))
         \<or> (\<exists>m. fileProcessingError (fst (image_branch env s0 file s log)) = Some (77 # m))
         \<or> (\<exists>m. fileProcessingError (fst (image_branch env s0 file s log)) = Some (78 # m))"
proof -
  consider
    (caught) err where "image_branch env s0 file s log = (image_catch s0 err s, log)"
  | (ocr) m l where "image_branch env s0 file s log
           = (s\<lparr>fileProcessingError := Some (lit ''Image OCR Error: '' @ m), isExtractingText := False\<rparr>, l)"
  | (format) raw l where "image_branch env s0 file s log
           = format_step env (lit ''Image'') raw (s\<lparr>inputText := raw, isExtractingText := False\<rparr>) l"
  | (empty) raw l where "image_branch env s0 file s log
           = (s\<lparr>inputText := raw, isExtractingText := False,
                fileProcessingError := Some (lit ''No text content could be extracted from the image (OCR).'')\<rparr>, l)"
    using image_branch_cases [where ?file = "file" and env = env and ?s0.0 = s0 and s = s and log = log]
    by blast
  then show ?thesis
  proof cases
    case caught
    then show ?thesis using clear by (simp add: image_catch_def Let_def lit_def)
  next
    case ocr
    then show ?thesis by (simp add: lit_def)
  next
    case format
    have "fileProcessingError (s\<lparr>inputText := raw, isExtractingText := False\<rparr>) = None"
      using clear by simp
    from format_step_message [OF this, of env "lit ''Image''" raw l] format
    show ?thesis by auto
  next
    case empty
    then show ?thesis by (simp add: lit_def)
  qed
qed

lemma unsupported_message_first: "\<exists>m. unsupported_message file = 85 # m"
  by (simp add: unsupported_message_def lit_def)

lemma image_branch_not_unsupported:
  assumes "fileProcessingError s = None"
  shows "fileProcessingError (fst (image_branch env s0 file s log)) \<noteq> Some (unsupported_message file)"
  using image_branch_message [OF assms, where env = env and ?s0.0 = s0 and ?file = "file" and log = log]
    unsupported_message_first [where ?file = "file"]
  by auto

lemma extract_log_configured:
  "API_KEY env = Some k \<Longrightarrow> trim k \<noteq> [] \<Longrightarrow>
   snd (extractTextFromImageData env d m log) = log @ [OcrRequest m d]"
  by (auto simp: extractTextFromImageData_def ensureApiKeyIsConfigured_def call_generateContent_def
           split: sum.splits option.splits)

lemma convert_log: "\<exists>rest. snd (convertTextToMarkdown env t log) = log @ rest"
  by (auto simp: convertTextToMarkdown_def call_generateContent_def
           split: sum.splits option.splits)

lemma format_step_log: "\<exists>rest. snd (format_step env kind t s log) = log @ rest"
proof -
  obtain rest where "snd (convertTextToMarkdown env t log) = log @ rest"
    using convert_log by blast
  then show ?thesis
    by (cases "convertTextToMarkdown env t log")
       (auto simp: format_step_def Let_def split: sum.splits)
qed

lemma image_branch_log:
  assumes key: "API_KEY env = Some k" "trim k \<noteq> []"
    and read: "readAsDataURL file = Inr (Some result)" "result \<noteq> []"
  shows "\<exists>rest. snd (image_branch env s0 file s log)
           = log @ OcrRequest (file_type file) (split_1 44 result) # rest"
proof -
  obtain r l where e: "extractTextFromImageData env (split_1 44 result) (file_type file) log = (r, l)"
    by (cases "extractTextFromImageData env (split_1 44 result) (file_type file) log")
  with extract_log_configured [OF key, of "split_1 44 result" "file_type file" log]
  have l: "l = log @ [OcrRequest (file_type file) (split_1 44 result)]" by simp
  show ?thesis
  proof (cases r)
    case (Inl ocrErr)
    with e l read show ?thesis by (simp add: image_branch_def)
  next
    case (Inr raw)
    obtain rest where "snd (format_step env (lit ''Image'') raw
                              (s\<lparr>inputText := raw, isExtractingText := False\<rparr>) l) = l @ rest"
      using format_step_log by blast
    with Inr e l read show ?thesis by (simp add: image_branch_def Let_def)
  qed
qed

text \<open>
  Claim C10.  A file whose declared type is \<open>image/jpg\<close> in any letter case is handled by
  the image branch, as a file declared \<open>image/jpeg\<close> is; the handler does not end with the
  unsupported-type message, and when the credential is configured and the file is read
  as a data URL, the first request it issues is an OCR request with the declared type and
  the base64 part of the data URL.
\<close>

theorem image_jpg_is_handled_as_image:
  "toLowerCase (file_type file) = lit ''image/jpg'' \<or> toLowerCase (file_type file) = lit ''image/jpeg'' \<longrightarrow>
     handleFileUpload env (Some file) s log = image_branch env s file (upload_begin s) log
     \<and> fileProcessingError (fst (handleFileUpload env (Some file) s log)) \<noteq> Some (unsupported_message file)
     \<and> (API_KEY env = Some k \<and> trim k \<noteq> [] \<and> readAsDataURL file = Inr (Some result) \<and> result \<noteq> [] \<longrightarrow>
          (\<exists>rest. snd (handleFileUpload env (Some file) s log)
                     = log @ OcrRequest (file_type file) (split_1 44 result) # rest))"
proof (intro impI)
  assume "toLowerCase (file_type file) = lit ''image/jpg'' \<or> toLowerCase (file_type file) = lit ''image/jpeg''"
  then have img: "toLowerCase (file_type file) \<in> set validImageTypes"
    by (auto simp: validImageTypes_def)
  then have "file_type file \<noteq> lit ''application/pdf''" by (rule toLowerCase_image_not_pdf)
  then have eq: "handleFileUpload env (Some file) s log = image_branch env s file (upload_begin s) log"
    using img by (rule handleFileUpload_image)
  have clear: "fileProcessingError (upload_begin s) = None" by (simp add: upload_begin_fields)
  show "handleFileUpload env (Some file) s log = image_branch env s file (upload_begin s) log
     \<and> fileProcessingError (fst (handleFileUpload env (Some file) s log)) \<noteq> Some (unsupported_message file)
     \<and> (API_KEY env = Some k \<and> trim k \<noteq> [] \<and> readAsDataURL file = Inr (Some result) \<and> result \<noteq> [] \<longrightarrow>
          (\<exists>rest. snd (handleFileUpload env (Some file) s log)
                     = log @ OcrRequest (file_type file) (split_1 44 result) # rest))"
    unfolding eq
    using image_branch_not_unsupported [OF clear] image_branch_log
    by blast
qed

text \<open>A file declared as \<open>image/jpg\<close>.\<close>

theorem image_jpg_is_handled_as_image_witness:
  "handleFileUpload example_service (Some (example_image ''image/jpg'')) example_state []
     = image_branch example_service example_state (example_image ''image/jpg'') (upload_begin example_state) []
   \<and> fileProcessingError (fst (handleFileUpload example_service (Some (example_image ''image/jpg''))
         example_state [])) \<noteq> Some (unsupported_message (example_image ''image/jpg''))
   \<and> (\<exists>rest. snd (handleFileUpload example_service (Some (example_image ''image/jpg'')) example_state [])
         = [] @ OcrRequest (lit ''image/jpg'') (Some (lit ''CCCC'')) # rest)"
proof -
  define f where "f = example_image ''image/jpg''"
  have t: "toLowerCase (file_type f) = lit ''image/jpg'' \<or> toLowerCase (file_type f) = lit ''image/jpeg''"
    by (simp add: f_def example_image_def toLowerCase_def lit_def)
  have k: "API_KEY example_service = Some (lit ''key'')" "trim (lit ''key'') \<noteq> []"
    by (simp_all add: example_service_def trim_def lit_def is_space_def)
  have r: "readAsDataURL f = Inr (Some (lit ''data:image/jpg;base64,CCCC''))"
    "lit ''data:image/jpg;base64,CCCC'' \<noteq> []"
    by (simp_all add: f_def example_image_def lit_def)
  have d: "file_type f = lit ''image/jpg''"
    "split_1 44 (lit ''data:image/jpg;base64,CCCC'') = Some (lit ''CCCC'')"
    by (simp_all add: f_def example_image_def split_1_def lit_def)
  note inst = image_jpg_is_handled_as_image
    [where ?file = f and env = example_service and s = example_state and log = "[]"
       and k = "lit ''key''" and result = "lit ''data:image/jpg;base64,CCCC''"]
  have c1: "handleFileUpload example_service (Some f) example_state []
     = image_branch example_service example_state f (upload_begin example_state) []"
    and c2: "fileProcessingError (fst (handleFileUpload example_service (Some f) example_state []))
               \<noteq> Some (unsupported_message f)"
    using inst t by blast+
  have c3: "\<exists>rest. snd (handleFileUpload example_service (Some f) example_state [])
         = [] @ OcrRequest (file_type f) (split_1 44 (lit ''data:image/jpg;base64,CCCC'')) # rest"
    using inst t k r by blast
  show ?thesis using c1 c2 c3 unfolding d unfolding f_def by blast
qed

section \<open>Voice resolution\<close>

lemma find_filter: "find P xs = (case filter P xs of [] \<Rightarrow> None | x # _ \<Rightarrow> Some x)"
  by (induction xs) auto

lemma find_default_or_first_prefer: "find_default_or_first xs = prefer_default xs"
  by (simp add: find_default_or_first_def prefer_default_def find_filter split: list.splits)

lemma prefer_default_Some: "xs \<noteq> [] \<Longrightarrow> \<exists>v. prefer_default xs = Some v"
  by (cases xs) (auto simp: prefer_default_def split: list.splits)

lemma resolve_three_tiers:
  "resolve_in_order [p1, p2, p3] xs =
     (if filter p1 xs \<noteq> [] then prefer_default (filter p1 xs)
      else if filter p2 xs \<noteq> [] then prefer_default (filter p2 xs)
      else if filter p3 xs \<noteq> [] then prefer_default (filter p3 xs)
      else None)"
  by (simp split: list.splits)

lemma selectedVoice_tiers:
  "selectedVoice available languageCode =
     resolve_in_order
       [\<lambda>v. voice_lang v = languageCode,
        \<lambda>v. startsWith (voice_lang v) (primary_subtag languageCode),
        \<lambda>v. True]
       available"
proof -
  let ?exact = "filter (\<lambda>v. voice_lang v = languageCode) available"
  let ?base = "filter (\<lambda>v. startsWith (voice_lang v) (takeWhile (\<lambda>c. c \<noteq> 45) languageCode)) available"
  show ?thesis
  proof (cases "?exact = []")
    case False
    then obtain v where "prefer_default ?exact = Some v" using prefer_default_Some by blast
    with False show ?thesis
      by (simp add: selectedVoice_def resolve_three_tiers find_default_or_first_prefer
            del: resolve_in_order.simps)
  next
    case True
    show ?thesis
    proof (cases "?base = []")
      case False
      then obtain v where "prefer_default ?base = Some v" using prefer_default_Some by blast
      with True False show ?thesis
        by (simp add: selectedVoice_def resolve_three_tiers find_default_or_first_prefer
              split_0_def primary_subtag_def del: resolve_in_order.simps)
    next
      case b: True
      show ?thesis
      proof (cases "available = []")
        case False
        then obtain v where "prefer_default available = Some v" using prefer_default_Some by blast
        with True b False show ?thesis
          by (simp add: selectedVoice_def resolve_three_tiers find_default_or_first_prefer
                split_0_def primary_subtag_def del: resolve_in_order.simps)
      next
        case e: True
        then show ?thesis
          by (simp add: selectedVoice_def)
      qed
    qed
  qed
qed

lemma startsWith_primary_subtag:
  "primary_subtag l = primary_subtag tag \<Longrightarrow> startsWith l (primary_subtag tag)"
proof -
  assume a: "primary_subtag l = primary_subtag tag"
  have "startsWith l (primary_subtag l)"
    by (simp add: startsWith_def primary_subtag_def takeWhile_eq_take [symmetric])
  then show ?thesis unfolding a .
qed

text \<open>
  What \<open>selectedVoice\<close> computes.  It tries three tiers in order, preferring a default
  voice within the first tier that has a candidate: the voices with exactly the requested
  tag, the voices whose tag begins with the primary subtag of the requested tag, and all
  voices.  The utterance carries the selected voice and its tag, or, when there is no
  voice at all, no voice and the requested tag.  The second tier is a prefix test; on
  every list in which each voice passing that test has the requested primary subtag, the
  selection is the one of the specification.  For the tag \<open>ko-KR\<close> and a list of a
  non-default \<open>ko-KR\<close> voice and a default \<open>en-US\<close> voice, in either order, the \<open>ko-KR\<close>
  voice is selected.
\<close>

theorem voice_resolution_order:
  "selectedVoice available languageCode
     = resolve_in_order
         [\<lambda>v. voice_lang v = languageCode,
          \<lambda>v. startsWith (voice_lang v) (primary_subtag languageCode),
          \<lambda>v. True]
         available
   \<and> utterance_voice (make_utterance available text languageCode) = selectedVoice available languageCode
   \<and> utterance_lang (make_utterance available text languageCode)
       = (case selectedVoice available languageCode of Some v \<Rightarrow> voice_lang v | None \<Rightarrow> languageCode)
   \<and> selectedVoice [] languageCode = None
   \<and> ((\<forall>v \<in> set available. startsWith (voice_lang v) (primary_subtag languageCode) \<longrightarrow>
                          primary_subtag (voice_lang v) = primary_subtag languageCode) \<longrightarrow>
       selectedVoice available languageCode = spec_voice_resolution available languageCode)
   \<and> (voice_lang ko = lit ''ko-KR'' \<and> \<not> voice_default ko \<and> voice_lang en = lit ''en-US'' \<and> voice_default en \<longrightarrow>
       selectedVoice [ko, en] (lit ''ko-KR'') = Some ko \<and> selectedVoice [en, ko] (lit ''ko-KR'') = Some ko)"
proof (intro conjI impI)
  show "selectedVoice available languageCode
     = resolve_in_order
         [\<lambda>v. voice_lang v = languageCode,
          \<lambda>v. startsWith (voice_lang v) (primary_subtag languageCode),
          \<lambda>v. True]
         available"
    by (rule selectedVoice_tiers)
  show "utterance_voice (make_utterance available text languageCode) = selectedVoice available languageCode"
    by (simp add: make_utterance_def split: option.splits)
  show "utterance_lang (make_utterance available text languageCode)
       = (case selectedVoice available languageCode of Some v \<Rightarrow> voice_lang v | None \<Rightarrow> languageCode)"
    by (simp add: make_utterance_def split: option.splits)
  show "selectedVoice [] languageCode = None"
    by (simp add: selectedVoice_def)
next
  assume h: "\<forall>v \<in> set available. startsWith (voice_lang v) (primary_subtag languageCode) \<longrightarrow>
                          primary_subtag (voice_lang v) = primary_subtag languageCode"
  have "filter (\<lambda>v. startsWith (voice_lang v) (primary_subtag languageCode)) available
        = filter (\<lambda>v. primary_subtag (voice_lang v) = primary_subtag languageCode) available"
    using h by (intro filter_cong) (auto intro: startsWith_primary_subtag)
  then show "selectedVoice available languageCode = spec_voice_resolution available languageCode"
    unfolding selectedVoice_tiers spec_voice_resolution_def resolve_three_tiers by simp
next
  assume "voice_lang ko = lit ''ko-KR'' \<and> \<not> voice_default ko \<and> voice_lang en = lit ''en-US'' \<and> voice_default en"
  then show "selectedVoice [ko, en] (lit ''ko-KR'') = Some ko"
    and "selectedVoice [en, ko] (lit ''ko-KR'') = Some ko"
    by (simp_all add: selectedVoice_def find_default_or_first_def lit_def)
qed

text \<open>The list of the specification's example.\<close>

theorem voice_resolution_order_witness:
  "selectedVoice [example_voice ''Yuna'' ''ko-KR'' False, example_voice ''Samantha'' ''en-US'' True] (lit ''ko-KR'')
     = spec_voice_resolution [example_voice ''Yuna'' ''ko-KR'' False, example_voice ''Samantha'' ''en-US'' True] (lit ''ko-KR'')
   \<and> selectedVoice [example_voice ''Yuna'' ''ko-KR'' False, example_voice ''Samantha'' ''en-US'' True] (lit ''ko-KR'')
     = Some (example_voice ''Yuna'' ''ko-KR'' False)
   \<and> selectedVoice [example_voice ''Samantha'' ''en-US'' True, example_voice ''Yuna'' ''ko-KR'' False] (lit ''ko-KR'')
     = Some (example_voice ''Yuna'' ''ko-KR'' False)"
proof -
  define ko where "ko = example_voice ''Yuna'' ''ko-KR'' False"
  define en where "en = example_voice ''Samantha'' ''en-US'' True"
  have h1: "\<forall>v \<in> set [ko, en]. startsWith (voice_lang v) (primary_subtag (lit ''ko-KR'')) \<longrightarrow>
                          primary_subtag (voice_lang v) = primary_subtag (lit ''ko-KR'')"
    by (simp add: ko_def en_def example_voice_def startsWith_def primary_subtag_def lit_def)
  have h2: "voice_lang ko = lit ''ko-KR'' \<and> \<not> voice_default ko \<and> voice_lang en = lit ''en-US'' \<and> voice_default en"
    by (simp add: ko_def en_def example_voice_def)
  note inst = voice_resolution_order [where available = "[ko, en]" and languageCode = "lit ''ko-KR''"
      and ko = ko and en = en]
  have c1: "selectedVoice [ko, en] (lit ''ko-KR'') = spec_voice_resolution [ko, en] (lit ''ko-KR'')"
    using inst h1 by blast
  have c2: "selectedVoice [ko, en] (lit ''ko-KR'') = Some ko"
    and c3: "selectedVoice [en, ko] (lit ''ko-KR'') = Some ko"
    using inst h2 by blast+
  show ?thesis using c1 c2 c3 unfolding ko_def en_def by blast
qed

text \<open>
  Claim C8.  The order of the claim is not the one of the program at the tag \<open>ko-KR\<close>
  with a list of a non-default \<open>kok-IN\<close> voice and a default \<open>en-US\<close> voice.  No voice has
  the primary subtag \<open>ko\<close>, so the order of the claim ends in its third tier with the
  default voice.  The step of the program that its comment calls the base language match
  tests whether the tag of a voice starts with \<open>ko\<close>, and selects the \<open>kok-IN\<close> voice.
\<close>

theorem prefix_match_is_not_primary_subtag_match:
  "primary_subtag (lit ''kok-IN'') \<noteq> primary_subtag (lit ''ko-KR'')
   \<and> selectedVoice [example_voice ''Konkani'' ''kok-IN'' False, example_voice ''Samantha'' ''en-US'' True] (lit ''ko-KR'')
       = Some (example_voice ''Konkani'' ''kok-IN'' False)
   \<and> spec_voice_resolution [example_voice ''Konkani'' ''kok-IN'' False, example_voice ''Samantha'' ''en-US'' True] (lit ''ko-KR'')
       = Some (example_voice ''Samantha'' ''en-US'' True)"
  by (simp add: selectedVoice_def spec_voice_resolution_def prefer_default_def
        find_default_or_first_def primary_subtag_def split_0_def startsWith_def
        example_voice_def lit_def)

section \<open>The start of an upload\<close>

lemma format_step_tts: "currentTtsError (fst (format_step env kind rawText s log)) = currentTtsError s"
  by (auto simp: format_step_def Let_def split: sum.splits prod.splits)

lemma pdf_branch_tts: "currentTtsError (fst (pdf_branch env file s log)) = currentTtsError s"
  by (auto simp: pdf_branch_def pdf_catch_def Let_def format_step_tts split: sum.splits prod.splits)

lemma image_branch_tts: "currentTtsError (fst (image_branch env s0 file s log)) = currentTtsError s"
  by (auto simp: image_branch_def image_catch_def Let_def format_step_tts
           split: sum.splits prod.splits option.splits)

lemma handleFileUpload_tts:
  "currentTtsError (fst (handleFileUpload env event s log)) = currentTtsError s"
  by (auto simp: handleFileUpload_def Let_def pdf_branch_tts image_branch_tts upload_begin_fields
           split: option.splits)

lemma upload_begin_disables:
  "translate_disabled (upload_begin s)" "speak_disabled (upload_begin s)"
  by (simp_all add: translate_disabled_def speak_disabled_def showOverallSpinner_def upload_begin_fields)

text \<open>
  Claim C2.  The statements before the dispatch empty both text buffers, clear the general
  and the file-processing slot, and leave the translate and the speak button disabled.
  The speech slot \<open>currentTtsError\<close> is not cleared: the handler never assigns it, so it
  holds after the upload what it held before, here an old speech error.
\<close>

theorem upload_leaves_speech_error:
  "inputText (upload_begin s) = [] \<and> translatedText (upload_begin s) = []
   \<and> error (upload_begin s) = None \<and> fileProcessingError (upload_begin s) = None
   \<and> translate_disabled (upload_begin s) \<and> speak_disabled (upload_begin s)
   \<and> currentTtsError (upload_begin s) = currentTtsError s
   \<and> currentTtsError (fst (handleFileUpload env event s log)) = currentTtsError s"
  by (simp add: upload_begin_fields upload_begin_disables handleFileUpload_tts)

text \<open>An upload of an image in a state that holds an old speech error.\<close>

theorem upload_leaves_speech_error_witness:
  "translate_disabled (upload_begin example_state) \<and> speak_disabled (upload_begin example_state)
   \<and> currentTtsError (upload_begin example_state) = Some (lit ''Speech error: synthesis-failed'')
   \<and> currentTtsError (fst (handleFileUpload example_service (Some (example_image ''image/png''))
         example_state [])) = Some (lit ''Speech error: synthesis-failed'')"
proof -
  have old: "currentTtsError example_state = Some (lit ''Speech error: synthesis-failed'')"
    by (simp add: example_state_def)
  show ?thesis
    using upload_leaves_speech_error
      [where s = example_state and env = example_service
         and event = "Some (example_image ''image/png'')" and log = "[]"]
    unfolding old by blast
qed

section \<open>Sanitized text for speech and for rendering\<close>

lemma utterance_text_make: "utterance_text (make_utterance vs text languageCode) = text"
  by (simp add: make_utterance_def split: option.splits)

text \<open>
  Claim C9, as amended.  A click on the speak button hands an utterance to the
  synthesizer exactly when speech is supported and idle, the translated buffer is not
  empty and the text extracted from the sanitized rendering of the translated buffer is
  not empty after trimming; the text of the utterance is that trimmed text.  When the
  trimmed text is empty nothing is handed over and the speech slot holds a message.  The
  extracted text is the \<open>textContent\<close> of the sanitized markup, or its \<open>innerText\<close> when the
  former is empty.  Each pane that shows a buffer shows the sanitized rendering of that
  buffer.
\<close>

theorem speech_text_is_trimmed_sanitized_text:
  "(spoken (handleSpeakOrStop d s) = spoken s
    \<or> spoken (handleSpeakOrStop d s)
        = spoken s @ [make_utterance (voices s) (trim (textToSpeak d (translatedText s)))
                        (code (targetLanguage s))])
   \<and> (isSupported s \<and> speechSynthesis_present s \<and> \<not> isSpeaking s \<and> \<not> isSynthesizing s
      \<and> translatedText s \<noteq> [] \<and> trim (textToSpeak d (translatedText s)) \<noteq> [] \<longrightarrow>
        spoken (handleSpeakOrStop d s)
          = spoken s @ [make_utterance (voices s) (trim (textToSpeak d (translatedText s)))
                          (code (targetLanguage s))]
        \<and> utterance_text (last (spoken (handleSpeakOrStop d s)))
            = trim (textToSpeak d (translatedText s)))
   \<and> spoken (handleSpeakOrStop d s)
       = (if isSupported s \<and> speechSynthesis_present s \<and> \<not> isSpeaking s \<and> \<not> isSynthesizing s
             \<and> translatedText s \<noteq> [] \<and> trim (textToSpeak d (translatedText s)) \<noteq> []
          then spoken s @ [make_utterance (voices s) (trim (textToSpeak d (translatedText s)))
                             (code (targetLanguage s))]
          else spoken s)
   \<and> (isSupported s \<and> \<not> isSpeaking s \<and> \<not> isSynthesizing s \<and> translatedText s \<noteq> []
      \<and> trim (textToSpeak d (translatedText s)) = [] \<longrightarrow>
        spoken (handleSpeakOrStop d s) = spoken s
        \<and> currentTtsError (handleSpeakOrStop d s) = Some (lit ''No text content available to speak.''))
   \<and> (textToSpeak d t = textContent d (sanitize d HtmlProfile (marked_parse d t))
      \<or> textToSpeak d t = innerText d (sanitize d HtmlProfile (marked_parse d t)))
   \<and> (textContent d (sanitize d HtmlProfile (marked_parse d t)) \<noteq> [] \<longrightarrow>
        textToSpeak d t = textContent d (sanitize d HtmlProfile (marked_parse d t)))
   \<and> (input_html d s = None
      \<or> input_html d s = Some (sanitize d DefaultConfig (marked_parse d (inputText s))))
   \<and> (inputText s \<noteq> [] \<longrightarrow>
        input_html d s = Some (sanitize d DefaultConfig (marked_parse d (inputText s))))
   \<and> (translated_html d s = None
      \<or> translated_html d s = Some (sanitize d DefaultConfig (marked_parse d (translatedText s))))
   \<and> (translatedText s \<noteq> [] \<and> \<not> isLoading s \<longrightarrow>
        translated_html d s = Some (sanitize d DefaultConfig (marked_parse d (translatedText s))))"
proof (intro conjI impI)
  show "spoken (handleSpeakOrStop d s) = spoken s
    \<or> spoken (handleSpeakOrStop d s)
        = spoken s @ [make_utterance (voices s) (trim (textToSpeak d (translatedText s)))
                        (code (targetLanguage s))]"
    by (simp add: handleSpeakOrStop_def Let_def cancel_def speak_def ttsError_effect_def
             split: option.splits)
next
  assume h: "isSupported s \<and> speechSynthesis_present s \<and> \<not> isSpeaking s \<and> \<not> isSynthesizing s
      \<and> translatedText s \<noteq> [] \<and> trim (textToSpeak d (translatedText s)) \<noteq> []"
  then show sp: "spoken (handleSpeakOrStop d s)
          = spoken s @ [make_utterance (voices s) (trim (textToSpeak d (translatedText s)))
                          (code (targetLanguage s))]"
    by (simp add: handleSpeakOrStop_def Let_def speak_def ttsError_effect_def split: option.splits)
  show "utterance_text (last (spoken (handleSpeakOrStop d s)))
            = trim (textToSpeak d (translatedText s))"
    unfolding sp by (simp add: utterance_text_make)
next
  show "spoken (handleSpeakOrStop d s)
       = (if isSupported s \<and> speechSynthesis_present s \<and> \<not> isSpeaking s \<and> \<not> isSynthesizing s
             \<and> translatedText s \<noteq> [] \<and> trim (textToSpeak d (translatedText s)) \<noteq> []
          then spoken s @ [make_utterance (voices s) (trim (textToSpeak d (translatedText s)))
                             (code (targetLanguage s))]
          else spoken s)"
    by (simp add: handleSpeakOrStop_def Let_def cancel_def speak_def ttsError_effect_def
             split: option.splits)
next
  assume g: "isSupported s \<and> \<not> isSpeaking s \<and> \<not> isSynthesizing s \<and> translatedText s \<noteq> []
      \<and> trim (textToSpeak d (translatedText s)) = []"
  then show "spoken (handleSpeakOrStop d s) = spoken s"
    by (simp add: handleSpeakOrStop_def Let_def)
  from g show "currentTtsError (handleSpeakOrStop d s) = Some (lit ''No text content available to speak.'')"
    by (simp add: handleSpeakOrStop_def Let_def)
next
  show "textToSpeak d t = textContent d (sanitize d HtmlProfile (marked_parse d t))
      \<or> textToSpeak d t = innerText d (sanitize d HtmlProfile (marked_parse d t))"
    by (simp add: textToSpeak_def Let_def)
next
  assume "textContent d (sanitize d HtmlProfile (marked_parse d t)) \<noteq> []"
  then show "textToSpeak d t = textContent d (sanitize d HtmlProfile (marked_parse d t))"
    by (simp add: textToSpeak_def Let_def)
next
  show "input_html d s = None
      \<or> input_html d s = Some (sanitize d DefaultConfig (marked_parse d (inputText s)))"
    by (simp add: input_html_def)
next
  assume "inputText s \<noteq> []"
  then show "input_html d s = Some (sanitize d DefaultConfig (marked_parse d (inputText s)))"
    by (auto simp: input_html_def)
next
  show "translated_html d s = None
      \<or> translated_html d s = Some (sanitize d DefaultConfig (marked_parse d (translatedText s)))"
    by (simp add: translated_html_def)
next
  assume "translatedText s \<noteq> [] \<and> \<not> isLoading s"
  then show "translated_html d s = Some (sanitize d DefaultConfig (marked_parse d (translatedText s)))"
    by (simp add: translated_html_def)
qed

lemma example_textToSpeak:
  "textToSpeak example_dom (lit ''Old translation'') = lit ''Old translation\<newline>''"
  by (simp add: textToSpeak_def example_dom_def lit_def Let_def)

text \<open>
  A state with both buffers filled and speech idle, and the same state with a translated
  buffer that renders to a line break only.
\<close>

theorem speech_text_is_trimmed_sanitized_text_witness:
  "spoken (handleSpeakOrStop example_dom example_state)
     = [\<lparr>utterance_text = lit ''Old translation'', utterance_lang = lit ''en-US'', utterance_voice = None\<rparr>]
   \<and> spoken (handleSpeakOrStop example_dom (example_state\<lparr>translatedText := lit ''<br>''\<rparr>)) = []
   \<and> currentTtsError (handleSpeakOrStop example_dom (example_state\<lparr>translatedText := lit ''<br>''\<rparr>))
       = Some (lit ''No text content available to speak.'')
   \<and> textToSpeak example_dom (lit ''Old translation'')
       = textContent example_dom (sanitize example_dom HtmlProfile (marked_parse example_dom (lit ''Old translation'')))
   \<and> input_html example_dom example_state
       = Some (sanitize example_dom DefaultConfig (marked_parse example_dom (inputText example_state)))
   \<and> translated_html example_dom example_state
       = Some (sanitize example_dom DefaultConfig (marked_parse example_dom (translatedText example_state)))"
proof -
  have tt: "translatedText example_state = lit ''Old translation''"
    by (simp add: example_state_def)
  have tr: "trim (textToSpeak example_dom (translatedText example_state)) = lit ''Old translation''"
    unfolding tt example_textToSpeak by (simp add: trim_def lit_def is_space_def)
  have h: "isSupported example_state \<and> speechSynthesis_present example_state
           \<and> \<not> isSpeaking example_state \<and> \<not> isSynthesizing example_state
           \<and> translatedText example_state \<noteq> []
           \<and> trim (textToSpeak example_dom (translatedText example_state)) \<noteq> []"
    unfolding tr by (simp add: example_state_def lit_def)
  note inst = speech_text_is_trimmed_sanitized_text
    [where d = example_dom and s = example_state and t = "lit ''Old translation''"]
  have "spoken (handleSpeakOrStop example_dom example_state)
          = spoken example_state @ [make_utterance (voices example_state)
              (trim (textToSpeak example_dom (translatedText example_state)))
              (code (targetLanguage example_state))]"
    using inst h by blast
  moreover have "spoken example_state @ [make_utterance (voices example_state)
              (trim (textToSpeak example_dom (translatedText example_state)))
              (code (targetLanguage example_state))]
     = [\<lparr>utterance_text = lit ''Old translation'', utterance_lang = lit ''en-US'', utterance_voice = None\<rparr>]"
    unfolding tr by (simp add: example_state_def make_utterance_def selectedVoice_def)
  ultimately have c1: "spoken (handleSpeakOrStop example_dom example_state)
     = [\<lparr>utterance_text = lit ''Old translation'', utterance_lang = lit ''en-US'', utterance_voice = None\<rparr>]"
    by (rule trans)
  have n: "textContent example_dom (sanitize example_dom HtmlProfile
             (marked_parse example_dom (lit ''Old translation''))) \<noteq> []"
    by (simp add: example_dom_def lit_def)
  have c2: "textToSpeak example_dom (lit ''Old translation'')
       = textContent example_dom (sanitize example_dom HtmlProfile (marked_parse example_dom (lit ''Old translation'')))"
    using inst n by blast
  have i: "inputText example_state \<noteq> []" and l: "translatedText example_state \<noteq> [] \<and> \<not> isLoading example_state"
    by (simp_all add: example_state_def lit_def)
  have c3: "input_html example_dom example_state
       = Some (sanitize example_dom DefaultConfig (marked_parse example_dom (inputText example_state)))"
    using inst i by blast
  have c4: "translated_html example_dom example_state
       = Some (sanitize example_dom DefaultConfig (marked_parse example_dom (translatedText example_state)))"
    using inst l by blast
  define quiet where "quiet = example_state\<lparr>translatedText := lit ''<br>''\<rparr>"
  have g: "isSupported quiet \<and> \<not> isSpeaking quiet \<and> \<not> isSynthesizing quiet \<and> translatedText quiet \<noteq> []
           \<and> trim (textToSpeak example_dom (translatedText quiet)) = []"
    by (simp add: quiet_def example_state_def textToSpeak_def example_dom_def trim_def
          is_space_def lit_def Let_def)
  have c5': "spoken (handleSpeakOrStop example_dom quiet) = spoken quiet"
    and c6: "currentTtsError (handleSpeakOrStop example_dom quiet)
               = Some (lit ''No text content available to speak.'')"
    using speech_text_is_trimmed_sanitized_text [where d = example_dom and s = quiet] g by blast+
  have "spoken quiet = []" by (simp add: quiet_def example_state_def)
  with c5' have c5: "spoken (handleSpeakOrStop example_dom quiet) = []" by (rule trans)
  show ?thesis using c1 c2 c3 c4 c5 c6 unfolding quiet_def by blast
qed

text \<open>
  Claim C9 as stated fails.  The text content of the sanitized rendering of a paragraph
  ends with a line feed, and the text handed to the synthesizer is that content trimmed.
  For a translated buffer that renders to a line break only, the text content is a line
  feed and nothing is handed to the synthesizer.
\<close>

theorem speech_text_differs_from_text_content:
  "utterance_text (last (spoken (handleSpeakOrStop example_dom example_state)))
     = lit ''Old translation''
   \<and> textContent example_dom (sanitize example_dom HtmlProfile
        (marked_parse example_dom (translatedText example_state)))
     = lit ''Old translation\<newline>''
   \<and> utterance_text (last (spoken (handleSpeakOrStop example_dom example_state)))
     \<noteq> textContent example_dom (sanitize example_dom HtmlProfile
          (marked_parse example_dom (translatedText example_state)))
   \<and> textContent example_dom (sanitize example_dom HtmlProfile (marked_parse example_dom (lit ''<br>'')))
     = lit ''\<newline>''
   \<and> spoken (handleSpeakOrStop example_dom (example_state\<lparr>translatedText := lit ''<br>''\<rparr>)) = []"
  by (simp add: handleSpeakOrStop_def speak_def ttsError_effect_def make_utterance_def
        selectedVoice_def textToSpeak_def example_dom_def example_state_def
        trim_def is_space_def lit_def Let_def)

end
